theory Spec2Isabelle
  imports Main "HOL-Library.Product_Lexorder"
begin

section \<open>Documents\<close>

text \<open>
  An ObjectId is an opaque identifier: \<open>a.toString() === b.toString()\<close> and the array
  method \<open>includes\<close> of a document array are equality of identifiers. A route parameter
  \<open>:id\<close> is a string that the store casts to an ObjectId; where a handler does nothing
  with the string but hand it to the store, the model takes the identifier it is cast to,
  and a string that is no identifier is not an input there.
\<close>

type_synonym oid = nat

text \<open>
  \<open>/subscribe/:channelId\<close> also compares the string itself, so the subscription routes
  take the string. What matters of such a string is which identifier the store casts it
  to, if any, and whether it is the very string \<open>toString()\<close> gives for that identifier
  (24 lower-case hexadecimal digits) or another spelling that is cast to the same
  identifier (the same digits in upper case, for one). A string that cannot be cast makes
  the store throw.
\<close>

datatype id_string = ToString oid | OtherSpelling oid | NotAnId

definition toString :: "oid \<Rightarrow> id_string" where
  "toString i = ToString i"

fun castObjectId :: "id_string \<Rightarrow> oid option" where
  "castObjectId (ToString i) = Some i"
| "castObjectId (OtherSpelling i) = Some i"
| "castObjectId NotAnId = None"

text \<open>
  Modelled from the spec: \<open>models/User.js\<close> is not among the sources. The record has the
  fields the routes read and write (\<open>username\<close>, \<open>bio\<close>, \<open>profilePicture\<close>,
  \<open>isAdmin\<close>, \<open>subscribers\<close>, \<open>subscribedTo\<close>); the credential hash is left out.
\<close>

record user_doc =
  username :: string
  bio :: string
  profilePicture :: string
  isAdmin :: bool
  subscribers :: "oid list"
  subscribedTo :: "oid list"

text \<open>
  \<open>videoSchema\<close> and \<open>commentSchema\<close> share the fields \<open>user\<close>, \<open>likes\<close>,
  \<open>dislikes\<close> and the timestamp \<open>createdAt\<close>; they are the common part of the two
  records. \<open>updatedAt\<close> is maintained by the store and read by no route; it is left out.
  Arrays are lists: \<open>push\<close> appends, and nothing in a schema forbids duplicates.
\<close>

record entity =
  user :: oid
  likes :: "oid list"
  dislikes :: "oid list"
  createdAt :: nat

record video_doc = entity +
  title :: string
  description :: "string option"
  videoUrl :: string
  thumbnailUrl :: string
  duration :: nat
  views :: nat
  category :: string
  tags :: "string list"

record comment_doc = entity +
  content :: string
  video :: oid
  replies :: "oid list"
  parentComment :: "oid option"

record subscription_doc =
  subscriber :: oid
  channel :: oid

section \<open>The store\<close>

text \<open>
  A collection is the list of its documents with their \<open>_id\<close>, in insertion order.
  Every call that writes to the store is recorded in \<open>oplog\<close>, so that "persists once"
  and "does not write" are statements about the state.
\<close>

datatype coll = Users | Videos | Comments | Subscriptions

datatype store_op =
    Save coll oid
  | FindByIdAndUpdate coll oid
  | FindByIdAndDelete coll oid
  | DeleteMany coll

record db =
  users :: "(oid \<times> user_doc) list"
  videos :: "(oid \<times> video_doc) list"
  comments :: "(oid \<times> comment_doc) list"
  subscriptions :: "(oid \<times> subscription_doc) list"
  oplog :: "store_op list"

definition findById :: "oid \<Rightarrow> (oid \<times> 'a) list \<Rightarrow> 'a option" where
  "findById i c = map_of c i"

definition updateById :: "oid \<Rightarrow> ('a \<Rightarrow> 'a) \<Rightarrow> (oid \<times> 'a) list \<Rightarrow> (oid \<times> 'a) list" where
  "updateById i f c = map (\<lambda>(j, d). if j = i then (j, f d) else (j, d)) c"

definition deleteById :: "oid \<Rightarrow> (oid \<times> 'a) list \<Rightarrow> (oid \<times> 'a) list" where
  "deleteById i c = filter (\<lambda>(j, d). j \<noteq> i) c"

definition deleteWhere :: "('a \<Rightarrow> bool) \<Rightarrow> (oid \<times> 'a) list \<Rightarrow> (oid \<times> 'a) list" where
  "deleteWhere p c = filter (\<lambda>(j, d). \<not> p d) c"

text \<open>
  The write of \<open>doc.save()\<close> for a document that was read from the store: one write.
  The validators that \<open>save()\<close> runs first are in the handlers.
\<close>

definition save_video :: "oid \<Rightarrow> video_doc \<Rightarrow> db \<Rightarrow> db" where
  "save_video i d s =
     s\<lparr>videos := updateById i (\<lambda>_. d) (videos s), oplog := oplog s @ [Save Videos i]\<rparr>"

definition save_comment :: "oid \<Rightarrow> comment_doc \<Rightarrow> db \<Rightarrow> db" where
  "save_comment i d s =
     s\<lparr>comments := updateById i (\<lambda>_. d) (comments s), oplog := oplog s @ [Save Comments i]\<rparr>"

text \<open>\<open>$pull\<close> removes every occurrence of an identifier from an array.\<close>

definition pull :: "oid \<Rightarrow> oid list \<Rightarrow> oid list" where
  "pull i xs = filter (\<lambda>j. j \<noteq> i) xs"

section \<open>Responses and authentication\<close>

text \<open>
  A handler answers with an HTTP status and a message (\<open>Inl\<close>) or with the JSON body of a
  success (\<open>Inr\<close>; status 200, or 201 where the handler says so).
\<close>

type_synonym failure = "nat \<times> string"

datatype cookie = NoToken | InvalidToken | Token oid

text \<open>
  \<open>authenticate\<close> (middleware): no cookie is 401; a token that \<open>jwt.verify\<close> rejects
  throws and is 401; a token whose user is gone is 401; otherwise \<open>req.user\<close> is the user.
\<close>

definition authenticate :: "db \<Rightarrow> cookie \<Rightarrow> failure + (oid \<times> user_doc)" where
  "authenticate s jwt =
     (case jwt of
        NoToken \<Rightarrow> Inl (401, ''Authentication required'')
      | InvalidToken \<Rightarrow> Inl (401, ''Invalid token'')
      | Token i \<Rightarrow>
          (case findById i (users s) of
             None \<Rightarrow> Inl (401, ''User not found'')
           | Some u \<Rightarrow> Inr (i, u)))"

section \<open>JavaScript values and schema validation\<close>

text \<open>
  A body or query field is absent (\<open>undefined\<close>) or a string. \<open>truthy\<close> is the test of
  \<open>if (x)\<close>, \<open>!x\<close> and \<open>x || y\<close>: \<open>undefined\<close> and the empty string are falsy.
\<close>

definition truthy :: "string option \<Rightarrow> bool" where
  "truthy x = (case x of None \<Rightarrow> False | Some t \<Rightarrow> t \<noteq> [])"

definition or_else :: "string option \<Rightarrow> string \<Rightarrow> string" where
  "or_else x d = (case x of None \<Rightarrow> d | Some t \<Rightarrow> if t = [] then d else t)"

text \<open>
  \<open>String.prototype.trim\<close> on the ASCII white space (a \<open>char\<close> is a byte; the Unicode
  spaces that \<open>trim\<close> also removes are not told apart here).
\<close>

definition is_space :: "char \<Rightarrow> bool" where
  "is_space c = (c \<in> set [CHR '' '', CHR 0x09, CHR 0x0A, CHR 0x0B, CHR 0x0C, CHR 0x0D])"

definition trim :: "string \<Rightarrow> string" where
  "trim t = rev (dropWhile is_space (rev (dropWhile is_space t)))"

text \<open>\<open>t.split(',')\<close>: one piece more than there are commas.\<close>

fun split_on :: "char \<Rightarrow> string \<Rightarrow> string list" where
  "split_on sep [] = [ [] ]"
| "split_on sep (x # xs) =
     (if x = sep then [] # split_on sep xs
      else (case split_on sep xs of
              [] \<Rightarrow> [ [x] ]
            | p # ps \<Rightarrow> (x # p) # ps))"

definition parse_tags :: "string \<Rightarrow> string list" where
  "parse_tags t = map trim (split_on CHR '','' t)"

text \<open>The \<open>enum\<close> of \<open>videoSchema.category\<close>.\<close>

definition categories :: "string list" where
  "categories =
     [''Entertainment'', ''Music'', ''Sports'', ''Gaming'', ''Education'',
      ''Science & Technology'', ''Travel'', ''News'', ''Comedy'', ''Vlogs'',
      ''Documentaries'', ''Food'', ''Fashion'', ''Beauty'', ''Pets & Animals'']"

text \<open>
  The validators that \<open>save()\<close> runs for a video: \<open>title\<close> required (a string that is
  empty after \<open>trim\<close> does not satisfy \<open>required\<close>) and at most 100 long,
  \<open>description\<close> at most 5000, \<open>videoUrl\<close> and \<open>thumbnailUrl\<close> required, \<open>category\<close>
  in the \<open>enum\<close>. A failing validator makes \<open>save()\<close> throw, nothing is written, and
  the handler's \<open>catch\<close> answers 500. \<open>save()\<close> runs the validators on every path of
  the document, also on the paths the handler did not assign: a stored document that
  fails a validator cannot be saved by any route.
\<close>

definition validate_video :: "video_doc \<Rightarrow> bool" where
  "validate_video v \<longleftrightarrow>
     title v \<noteq> [] \<and> length (title v) \<le> 100 \<and>
     (case description v of None \<Rightarrow> True | Some d \<Rightarrow> length d \<le> 5000) \<and>
     videoUrl v \<noteq> [] \<and> thumbnailUrl v \<noteq> [] \<and>
     category v \<in> set categories"

text \<open>\<open>commentSchema\<close>: \<open>content\<close> required, trimmed, at most 1000 long.\<close>

definition validate_comment :: "comment_doc \<Rightarrow> bool" where
  "validate_comment c \<longleftrightarrow> content c \<noteq> [] \<and> length (content c) \<le> 1000"

text \<open>
  Inserting a new document: \<open>_id\<close> has a unique index, so a second document with an
  identifier in use is refused (the driver throws).
\<close>

definition id_free :: "oid \<Rightarrow> (oid \<times> 'a) list \<Rightarrow> bool" where
  "id_free i c = (i \<notin> set (map fst c))"

section \<open>Engagement on videos (routes/videos.js)\<close>

text \<open>\<open>POST /:id/like\<close>\<close>

definition video_like :: "db \<Rightarrow> cookie \<Rightarrow> oid \<Rightarrow> db \<times> (failure + nat \<times> nat)" where
  "video_like s jwt i =
     (case authenticate s jwt of
        Inl e \<Rightarrow> (s, Inl e)
      | Inr (userId, req_user) \<Rightarrow>
          (case findById i (videos s) of
             None \<Rightarrow> (s, Inl (404, ''Video not found''))
           | Some v \<Rightarrow>
               if userId \<in> set (likes v) then (s, Inl (400, ''Video already liked''))
               else
                 let v1 = (if userId \<in> set (dislikes v)
                           then v\<lparr>dislikes := filter (\<lambda>j. j \<noteq> userId) (dislikes v)\<rparr>
                           else v);
                     v2 = v1\<lparr>likes := likes v1 @ [userId]\<rparr>
                 in if validate_video v2
                    then (save_video i v2 s, Inr (length (likes v2), length (dislikes v2)))
                    else (s, Inl (500, ''Server error''))))"

text \<open>\<open>DELETE /:id/unlike\<close>\<close>

definition video_unlike :: "db \<Rightarrow> cookie \<Rightarrow> oid \<Rightarrow> db \<times> (failure + nat \<times> nat)" where
  "video_unlike s jwt i =
     (case authenticate s jwt of
        Inl e \<Rightarrow> (s, Inl e)
      | Inr (userId, req_user) \<Rightarrow>
          (case findById i (videos s) of
             None \<Rightarrow> (s, Inl (404, ''Video not found''))
           | Some v \<Rightarrow>
               if userId \<in> set (likes v) then
                 let v1 = v\<lparr>likes := filter (\<lambda>j. j \<noteq> userId) (likes v)\<rparr>
                 in if validate_video v1
                    then (save_video i v1 s, Inr (length (likes v1), length (dislikes v1)))
                    else (s, Inl (500, ''Server error''))
               else (s, Inr (length (likes v), length (dislikes v)))))"

text \<open>\<open>POST /:id/dislike\<close>\<close>

definition video_dislike :: "db \<Rightarrow> cookie \<Rightarrow> oid \<Rightarrow> db \<times> (failure + nat \<times> nat)" where
  "video_dislike s jwt i =
     (case authenticate s jwt of
        Inl e \<Rightarrow> (s, Inl e)
      | Inr (userId, req_user) \<Rightarrow>
          (case findById i (videos s) of
             None \<Rightarrow> (s, Inl (404, ''Video not found''))
           | Some v \<Rightarrow>
               if userId \<in> set (dislikes v) then (s, Inl (400, ''Video already disliked''))
               else
                 let v1 = (if userId \<in> set (likes v)
                           then v\<lparr>likes := filter (\<lambda>j. j \<noteq> userId) (likes v)\<rparr>
                           else v);
                     v2 = v1\<lparr>dislikes := dislikes v1 @ [userId]\<rparr>
                 in if validate_video v2
                    then (save_video i v2 s, Inr (length (likes v2), length (dislikes v2)))
                    else (s, Inl (500, ''Server error''))))"

text \<open>\<open>DELETE /:id/undislike\<close>\<close>

definition video_undislike :: "db \<Rightarrow> cookie \<Rightarrow> oid \<Rightarrow> db \<times> (failure + nat \<times> nat)" where
  "video_undislike s jwt i =
     (case authenticate s jwt of
        Inl e \<Rightarrow> (s, Inl e)
      | Inr (userId, req_user) \<Rightarrow>
          (case findById i (videos s) of
             None \<Rightarrow> (s, Inl (404, ''Video not found''))
           | Some v \<Rightarrow>
               if userId \<in> set (dislikes v) then
                 let v1 = v\<lparr>dislikes := filter (\<lambda>j. j \<noteq> userId) (dislikes v)\<rparr>
                 in if validate_video v1
                    then (save_video i v1 s, Inr (length (likes v1), length (dislikes v1)))
                    else (s, Inl (500, ''Server error''))
               else (s, Inr (length (likes v), length (dislikes v)))))"

section \<open>Engagement on comments (routes/comments.js)\<close>

text \<open>\<open>POST /:id/like\<close>\<close>

definition comment_like :: "db \<Rightarrow> cookie \<Rightarrow> oid \<Rightarrow> db \<times> (failure + nat \<times> nat)" where
  "comment_like s jwt i =
     (case authenticate s jwt of
        Inl e \<Rightarrow> (s, Inl e)
      | Inr (userId, req_user) \<Rightarrow>
          (case findById i (comments s) of
             None \<Rightarrow> (s, Inl (404, ''Comment not found''))
           | Some c \<Rightarrow>
               if userId \<in> set (likes c) then (s, Inl (400, ''Comment already liked''))
               else
                 let c1 = (if userId \<in> set (dislikes c)
                           then c\<lparr>dislikes := filter (\<lambda>j. j \<noteq> userId) (dislikes c)\<rparr>
                           else c);
                     c2 = c1\<lparr>likes := likes c1 @ [userId]\<rparr>
                 in if validate_comment c2
                    then (save_comment i c2 s, Inr (length (likes c2), length (dislikes c2)))
                    else (s, Inl (500, ''Server error''))))"

text \<open>\<open>DELETE /:id/unlike\<close>\<close>

definition comment_unlike :: "db \<Rightarrow> cookie \<Rightarrow> oid \<Rightarrow> db \<times> (failure + nat \<times> nat)" where
  "comment_unlike s jwt i =
     (case authenticate s jwt of
        Inl e \<Rightarrow> (s, Inl e)
      | Inr (userId, req_user) \<Rightarrow>
          (case findById i (comments s) of
             None \<Rightarrow> (s, Inl (404, ''Comment not found''))
           | Some c \<Rightarrow>
               if userId \<in> set (likes c) then
                 let c1 = c\<lparr>likes := filter (\<lambda>j. j \<noteq> userId) (likes c)\<rparr>
                 in if validate_comment c1
                    then (save_comment i c1 s, Inr (length (likes c1), length (dislikes c1)))
                    else (s, Inl (500, ''Server error''))
               else (s, Inr (length (likes c), length (dislikes c)))))"

text \<open>\<open>POST /:id/dislike\<close>\<close>

definition comment_dislike :: "db \<Rightarrow> cookie \<Rightarrow> oid \<Rightarrow> db \<times> (failure + nat \<times> nat)" where
  "comment_dislike s jwt i =
     (case authenticate s jwt of
        Inl e \<Rightarrow> (s, Inl e)
      | Inr (userId, req_user) \<Rightarrow>
          (case findById i (comments s) of
             None \<Rightarrow> (s, Inl (404, ''Comment not found''))
           | Some c \<Rightarrow>
               if userId \<in> set (dislikes c) then (s, Inl (400, ''Comment already disliked''))
               else
                 let c1 = (if userId \<in> set (likes c)
                           then c\<lparr>likes := filter (\<lambda>j. j \<noteq> userId) (likes c)\<rparr>
                           else c);
                     c2 = c1\<lparr>dislikes := dislikes c1 @ [userId]\<rparr>
                 in if validate_comment c2
                    then (save_comment i c2 s, Inr (length (likes c2), length (dislikes c2)))
                    else (s, Inl (500, ''Server error''))))"

text \<open>\<open>DELETE /:id/undislike\<close>\<close>

definition comment_undislike :: "db \<Rightarrow> cookie \<Rightarrow> oid \<Rightarrow> db \<times> (failure + nat \<times> nat)" where
  "comment_undislike s jwt i =
     (case authenticate s jwt of
        Inl e \<Rightarrow> (s, Inl e)
      | Inr (userId, req_user) \<Rightarrow>
          (case findById i (comments s) of
             None \<Rightarrow> (s, Inl (404, ''Comment not found''))
           | Some c \<Rightarrow>
               if userId \<in> set (dislikes c) then
                 let c1 = c\<lparr>dislikes := filter (\<lambda>j. j \<noteq> userId) (dislikes c)\<rparr>
                 in if validate_comment c1
                    then (save_comment i c1 s, Inr (length (likes c1), length (dislikes c1)))
                    else (s, Inl (500, ''Server error''))
               else (s, Inr (length (likes c), length (dislikes c)))))"

section \<open>Queries\<close>

text \<open>
  A filter passed to \<open>find\<close> is a JavaScript object literal: a list of properties in the
  order they are written. When the same key is written twice, the object has the value
  written last.
\<close>

datatype vfield = F_id | F_category

datatype qcond = Q_eq string | Q_ne oid | Q_nin "oid list"

fun object_literal :: "('k \<times> 'v) list \<Rightarrow> ('k \<times> 'v) list" where
  "object_literal [] = []"
| "object_literal ((k, v) # kvs) =
     (if k \<in> set (map fst kvs) then object_literal kvs else (k, v) # object_literal kvs)"

text \<open>The conditions the routes use: \<open>_id: {$ne}\<close>, \<open>_id: {$nin}\<close>, \<open>category: c\<close>.\<close>

fun video_holds :: "oid \<times> video_doc \<Rightarrow> vfield \<times> qcond \<Rightarrow> bool" where
  "video_holds (i, v) (F_id, Q_ne j) = (i \<noteq> j)"
| "video_holds (i, v) (F_id, Q_nin js) = (i \<notin> set js)"
| "video_holds (i, v) (F_category, Q_eq c) = (category v = c)"
| "video_holds (i, v) _ = False"

definition find_videos :: "(vfield \<times> qcond) list \<Rightarrow> db \<Rightarrow> (oid \<times> video_doc) list" where
  "find_videos q s = filter (\<lambda>d. list_all (video_holds d) (object_literal q)) (videos s)"

text \<open>
  \<open>.sort({k: -1, ...})\<close>: descending in the key; documents with equal keys stay in the
  order of the collection. \<open>.limit(n)\<close> is \<open>take n\<close>.
\<close>

definition sort_desc :: "('a \<Rightarrow> 'k::linorder) \<Rightarrow> 'a list \<Rightarrow> 'a list" where
  "sort_desc k xs = rev (sort_key k (rev xs))"

section \<open>Videos (routes/videos.js)\<close>

text \<open>
  \<open>GET /search\<close>. The text index of the store decides which documents match a search
  string and with which score; both are parameters. A \<open>$meta: 'textScore'\<close> sort is by
  descending score.
\<close>

definition video_search ::
  "(string \<Rightarrow> video_doc \<Rightarrow> bool) \<Rightarrow> (string \<Rightarrow> video_doc \<Rightarrow> 'r::linorder) \<Rightarrow> db \<Rightarrow>
   string option \<Rightarrow> failure + (oid \<times> video_doc) list" where
  "video_search text_match textScore s q =
     (case q of
        None \<Rightarrow> Inl (400, ''Search query is required'')
      | Some t \<Rightarrow>
          if t = [] then Inl (400, ''Search query is required'')
          else Inr (take 50
                 (sort_desc (\<lambda>(i, v). (textScore t v, views v))
                    (filter (\<lambda>(i, v). text_match t v) (videos s)))))"

text \<open>\<open>GET /:id/recommended\<close>\<close>

definition video_recommended :: "db \<Rightarrow> oid \<Rightarrow> failure + (oid \<times> video_doc) list" where
  "video_recommended s i =
     (case findById i (videos s) of
        None \<Rightarrow> Inl (404, ''Video not found'')
      | Some currentVideo \<Rightarrow>
          let recommendedVideos =
                take 15 (sort_desc (\<lambda>(j, v). (views v, createdAt v))
                  (find_videos [(F_id, Q_ne i), (F_category, Q_eq (category currentVideo))] s))
          in if length recommendedVideos < 10 then
               let popularVideos =
                     take (15 - length recommendedVideos) (sort_desc (\<lambda>(j, v). views v)
                       (find_videos [(F_id, Q_ne i), (F_id, Q_nin (map fst recommendedVideos))] s))
               in Inr (recommendedVideos @ popularVideos)
             else Inr recommendedVideos)"

text \<open>\<open>POST /:id/view\<close>\<close>

definition video_view :: "db \<Rightarrow> oid \<Rightarrow> db \<times> (failure + nat)" where
  "video_view s i =
     (let s1 = s\<lparr>videos := updateById i (\<lambda>v. v\<lparr>views := views v + 1\<rparr>) (videos s),
                 oplog := oplog s @ [FindByIdAndUpdate Videos i]\<rparr>
      in case findById i (videos s1) of
           None \<Rightarrow> (s1, Inl (404, ''Video not found''))
         | Some v \<Rightarrow> (s1, Inr (views v)))"

text \<open>
  \<open>POST /\<close> (upload). \<open>upload\<close> is what the multipart middleware leaves: an error
  message, or the paths of the two files where present. \<open>probe\<close> is the duration the
  probe returns, \<open>None\<close> where it throws. \<open>new_id\<close> is the identifier the driver gives
  the new document and \<open>now\<close> its creation time.
\<close>

definition video_create ::
  "db \<Rightarrow> cookie \<Rightarrow> string + (string option \<times> string option) \<Rightarrow>
   string option \<Rightarrow> string option \<Rightarrow> string option \<Rightarrow> string option \<Rightarrow>
   nat option \<Rightarrow> oid \<Rightarrow> nat \<Rightarrow> db \<times> (failure + oid \<times> video_doc)" where
  "video_create s jwt upload title_in description_in category_in tags_in probe new_id now =
     (case authenticate s jwt of
        Inl e \<Rightarrow> (s, Inl e)
      | Inr (userId, req_user) \<Rightarrow>
          (case upload of
             Inl msg \<Rightarrow> (s, Inl (400, msg))
           | Inr (None, _) \<Rightarrow> (s, Inl (400, ''Video and thumbnail files are required''))
           | Inr (Some videoPath, None) \<Rightarrow>
               (s, Inl (400, ''Video and thumbnail files are required''))
           | Inr (Some videoPath, Some thumbnailPath) \<Rightarrow>
               (case title_in of
                  None \<Rightarrow> (s, Inl (500, ''Server error during video upload''))
                | Some t \<Rightarrow>
                    let v = \<lparr>user = userId, likes = [], dislikes = [], createdAt = now,
                             title = trim t,
                             description = map_option trim description_in,
                             videoUrl = ''/'' @ videoPath,
                             thumbnailUrl = ''/'' @ thumbnailPath,
                             duration = (case probe of None \<Rightarrow> 0 | Some d \<Rightarrow> d),
                             views = 0,
                             category = or_else category_in ''Entertainment'',
                             tags = (case tags_in of
                                       None \<Rightarrow> []
                                     | Some g \<Rightarrow> if g = [] then [] else parse_tags g)\<rparr>
                    in if validate_video v \<and> id_free new_id (videos s)
                       then (s\<lparr>videos := videos s @ [(new_id, v)],
                               oplog := oplog s @ [Save Videos new_id]\<rparr>, Inr (new_id, v))
                       else (s, Inl (500, ''Server error during video upload'')))))"

text \<open>\<open>PUT /:id\<close>\<close>

definition video_update ::
  "db \<Rightarrow> cookie \<Rightarrow> oid \<Rightarrow> string option \<Rightarrow> string option \<Rightarrow> string option \<Rightarrow>
   string option \<Rightarrow> db \<times> (failure + oid \<times> video_doc)" where
  "video_update s jwt i title_in description_in category_in tags_in =
     (case authenticate s jwt of
        Inl e \<Rightarrow> (s, Inl e)
      | Inr (userId, req_user) \<Rightarrow>
          (case findById i (videos s) of
             None \<Rightarrow> (s, Inl (404, ''Video not found''))
           | Some v \<Rightarrow>
               if user v \<noteq> userId \<and> \<not> isAdmin req_user
               then (s, Inl (403, ''Not authorized to update this video''))
               else
                 let v1 = v\<lparr>title := trim (or_else title_in (title v)),
                            description :=
                              (if truthy description_in then map_option trim description_in
                               else map_option trim (description v)),
                            category := or_else category_in (category v)\<rparr>;
                     v2 = (case tags_in of
                             None \<Rightarrow> v1
                           | Some g \<Rightarrow> if g = [] then v1 else v1\<lparr>tags := parse_tags g\<rparr>)
                 in if validate_video v2 then (save_video i v2 s, Inr (i, v2))
                    else (s, Inl (500, ''Server error''))))"

text \<open>\<open>DELETE /:id\<close>\<close>

definition video_delete :: "db \<Rightarrow> cookie \<Rightarrow> oid \<Rightarrow> db \<times> (failure + string)" where
  "video_delete s jwt i =
     (case authenticate s jwt of
        Inl e \<Rightarrow> (s, Inl e)
      | Inr (userId, req_user) \<Rightarrow>
          (case findById i (videos s) of
             None \<Rightarrow> (s, Inl (404, ''Video not found''))
           | Some v \<Rightarrow>
               if user v \<noteq> userId \<and> \<not> isAdmin req_user
               then (s, Inl (403, ''Not authorized to delete this video''))
               else
                 let s1 = s\<lparr>videos := deleteById i (videos s),
                            oplog := oplog s @ [FindByIdAndDelete Videos i]\<rparr>;
                     s2 = s1\<lparr>comments := deleteWhere (\<lambda>c. video c = i) (comments s1),
                             oplog := oplog s1 @ [DeleteMany Comments]\<rparr>
                 in (s2, Inr ''Video deleted successfully'')))"

text \<open>\<open>POST /:id/comments\<close>. An absent or empty \<open>parentCommentId\<close> is \<open>None\<close>.\<close>

definition comment_create ::
  "db \<Rightarrow> cookie \<Rightarrow> oid \<Rightarrow> string option \<Rightarrow> oid option \<Rightarrow> oid \<Rightarrow> nat \<Rightarrow>
   db \<times> (failure + oid \<times> comment_doc)" where
  "comment_create s jwt i content_in parentCommentId new_id now =
     (case authenticate s jwt of
        Inl e \<Rightarrow> (s, Inl e)
      | Inr (userId, req_user) \<Rightarrow>
          if \<not> truthy content_in then (s, Inl (400, ''Comment content is required''))
          else if findById i (videos s) = None then (s, Inl (404, ''Video not found''))
          else
            let c = \<lparr>user = userId, likes = [], dislikes = [], createdAt = now,
                     content = trim (or_else content_in []), video = i, replies = [],
                     parentComment = parentCommentId\<rparr>
            in if validate_comment c \<and> id_free new_id (comments s) then
                 let s1 = s\<lparr>comments := comments s @ [(new_id, c)],
                            oplog := oplog s @ [Save Comments new_id]\<rparr>;
                     s2 = (case parentCommentId of
                             None \<Rightarrow> s1
                           | Some p \<Rightarrow>
                               s1\<lparr>comments :=
                                     updateById p (\<lambda>d. d\<lparr>replies := replies d @ [new_id]\<rparr>)
                                       (comments s1),
                                   oplog := oplog s1 @ [FindByIdAndUpdate Comments p]\<rparr>)
                 in (s2, Inr (new_id, c))
               else (s, Inl (500, ''Server error'')))"

section \<open>Comments (routes/comments.js)\<close>

text \<open>\<open>PUT /:id\<close>\<close>

definition comment_update ::
  "db \<Rightarrow> cookie \<Rightarrow> oid \<Rightarrow> string option \<Rightarrow> db \<times> (failure + oid \<times> comment_doc)" where
  "comment_update s jwt i content_in =
     (case authenticate s jwt of
        Inl e \<Rightarrow> (s, Inl e)
      | Inr (userId, req_user) \<Rightarrow>
          if \<not> truthy content_in then (s, Inl (400, ''Comment content is required''))
          else
            (case findById i (comments s) of
               None \<Rightarrow> (s, Inl (404, ''Comment not found''))
             | Some c \<Rightarrow>
                 if user c \<noteq> userId \<and> \<not> isAdmin req_user
                 then (s, Inl (403, ''Not authorized to update this comment''))
                 else
                   let c1 = c\<lparr>content := trim (or_else content_in [])\<rparr>
                   in if validate_comment c1 then (save_comment i c1 s, Inr (i, c1))
                      else (s, Inl (500, ''Server error''))))"

text \<open>\<open>DELETE /:id\<close>\<close>

definition comment_delete :: "db \<Rightarrow> cookie \<Rightarrow> oid \<Rightarrow> db \<times> (failure + string)" where
  "comment_delete s jwt i =
     (case authenticate s jwt of
        Inl e \<Rightarrow> (s, Inl e)
      | Inr (userId, req_user) \<Rightarrow>
          (case findById i (comments s) of
             None \<Rightarrow> (s, Inl (404, ''Comment not found''))
           | Some c \<Rightarrow>
               if user c \<noteq> userId \<and> \<not> isAdmin req_user
               then (s, Inl (403, ''Not authorized to delete this comment''))
               else
                 let s1 = (case parentComment c of
                             None \<Rightarrow>
                               s\<lparr>comments :=
                                    deleteWhere (\<lambda>d. parentComment d = Some i) (comments s),
                                  oplog := oplog s @ [DeleteMany Comments]\<rparr>
                           | Some p \<Rightarrow>
                               s\<lparr>comments :=
                                    updateById p (\<lambda>d. d\<lparr>replies := pull i (replies d)\<rparr>)
                                      (comments s),
                                  oplog := oplog s @ [FindByIdAndUpdate Comments p]\<rparr>);
                     s2 = s1\<lparr>comments := deleteById i (comments s1),
                             oplog := oplog s1 @ [FindByIdAndDelete Comments i]\<rparr>
                 in (s2, Inr ''Comment deleted successfully'')))"

section \<open>Users and subscriptions (routes/users.js)\<close>

text \<open>\<open>PUT /profile\<close>. The body of the answer is the updated user as the store returns it.\<close>

definition profile_update ::
  "db \<Rightarrow> cookie \<Rightarrow> string option \<Rightarrow> string option \<Rightarrow> db \<times> (failure + user_doc option)" where
  "profile_update s jwt username_in bio_in =
     (case authenticate s jwt of
        Inl e \<Rightarrow> (s, Inl e)
      | Inr (userId, req_user) \<Rightarrow>
          if truthy username_in \<and>
             list_ex (\<lambda>(j, u). Some (username u) = username_in \<and> j \<noteq> userId) (users s)
          then (s, Inl (400, ''Username already taken''))
          else
            let s1 = s\<lparr>users :=
                         updateById userId
                           (\<lambda>u. let u1 = u\<lparr>username := or_else username_in (username u)\<rparr>
                                in (case bio_in of None \<Rightarrow> u1 | Some b \<Rightarrow> u1\<lparr>bio := b\<rparr>))
                           (users s),
                       oplog := oplog s @ [FindByIdAndUpdate Users userId]\<rparr>
            in (s1, Inr (findById userId (users s1))))"

text \<open>
  \<open>POST /profile-picture\<close>. \<open>upload\<close> is what the multipart middleware leaves: an error
  message, or the path of the file where there is one.
\<close>

definition profile_picture ::
  "db \<Rightarrow> cookie \<Rightarrow> string + string option \<Rightarrow> db \<times> (failure + user_doc option)" where
  "profile_picture s jwt upload =
     (case authenticate s jwt of
        Inl e \<Rightarrow> (s, Inl e)
      | Inr (userId, req_user) \<Rightarrow>
          (case upload of
             Inl msg \<Rightarrow> (s, Inl (400, msg))
           | Inr None \<Rightarrow> (s, Inl (400, ''No file uploaded''))
           | Inr (Some path) \<Rightarrow>
               let s1 = s\<lparr>users :=
                            updateById userId (\<lambda>u. u\<lparr>profilePicture := ''/'' @ path\<rparr>) (users s),
                          oplog := oplog s @ [FindByIdAndUpdate Users userId]\<rparr>
               in (s1, Inr (findById userId (users s1)))))"

text \<open>
  \<open>POST /subscribe/:channelId\<close>. The test for the own channel is
  \<open>channelId === subscriberId.toString()\<close>, on the string; \<open>User.findById\<close> and the two
  \<open>$push\<close> updates cast the string.
\<close>

definition subscribe :: "db \<Rightarrow> cookie \<Rightarrow> id_string \<Rightarrow> db \<times> (failure + string)" where
  "subscribe s jwt channelId =
     (case authenticate s jwt of
        Inl e \<Rightarrow> (s, Inl e)
      | Inr (subscriberId, req_user) \<Rightarrow>
          if channelId = toString subscriberId
          then (s, Inl (400, ''Cannot subscribe to your own channel''))
          else
            (case castObjectId channelId of
               None \<Rightarrow> (s, Inl (500, ''Server error''))
             | Some ch_id \<Rightarrow>
                 (case findById ch_id (users s) of
                    None \<Rightarrow> (s, Inl (404, ''Channel not found''))
                  | Some ch \<Rightarrow>
                      if subscriberId \<in> set (subscribers ch)
                      then (s, Inl (400, ''Already subscribed to this channel''))
                      else
                        let s1 = s\<lparr>users :=
                                     updateById ch_id
                                       (\<lambda>u. u\<lparr>subscribers := subscribers u @ [subscriberId]\<rparr>)
                                       (users s),
                                   oplog := oplog s @ [FindByIdAndUpdate Users ch_id]\<rparr>;
                            s2 = s1\<lparr>users :=
                                      updateById subscriberId
                                        (\<lambda>u. u\<lparr>subscribedTo := subscribedTo u @ [ch_id]\<rparr>)
                                        (users s1),
                                    oplog := oplog s1 @ [FindByIdAndUpdate Users subscriberId]\<rparr>
                        in (s2, Inr ''Subscribed successfully''))))"

text \<open>\<open>DELETE /unsubscribe/:channelId\<close>\<close>

definition unsubscribe :: "db \<Rightarrow> cookie \<Rightarrow> id_string \<Rightarrow> db \<times> (failure + string)" where
  "unsubscribe s jwt channelId =
     (case authenticate s jwt of
        Inl e \<Rightarrow> (s, Inl e)
      | Inr (subscriberId, req_user) \<Rightarrow>
          (case castObjectId channelId of
             None \<Rightarrow> (s, Inl (500, ''Server error''))
           | Some ch_id \<Rightarrow>
               (case findById ch_id (users s) of
                  None \<Rightarrow> (s, Inl (404, ''Channel not found''))
                | Some ch \<Rightarrow>
                    if subscriberId \<notin> set (subscribers ch)
                    then (s, Inl (400, ''Not subscribed to this channel''))
                    else
                      let s1 = s\<lparr>users :=
                                   updateById ch_id
                                     (\<lambda>u. u\<lparr>subscribers := pull subscriberId (subscribers u)\<rparr>)
                                     (users s),
                                 oplog := oplog s @ [FindByIdAndUpdate Users ch_id]\<rparr>;
                          s2 = s1\<lparr>users :=
                                    updateById subscriberId
                                      (\<lambda>u. u\<lparr>subscribedTo := pull ch_id (subscribedTo u)\<rparr>)
                                      (users s1),
                                  oplog := oplog s1 @ [FindByIdAndUpdate Users subscriberId]\<rparr>
                      in (s2, Inr ''Unsubscribed successfully''))))"

section \<open>Requests\<close>

text \<open>
  The routes of the three routers that call a writing method of the store
  (\<open>save\<close>, \<open>findByIdAndUpdate\<close>, \<open>findByIdAndDelete\<close>, \<open>deleteMany\<close>). The other
  routes only read (\<open>find\<close>, \<open>findById\<close>, \<open>findOne\<close>, \<open>exists\<close>, \<open>countDocuments\<close>).
\<close>

datatype request =
    VideoView oid
  | VideoCreate cookie "string + (string option \<times> string option)" "string option"
      "string option" "string option" "string option" "nat option" oid nat
  | VideoUpdate cookie oid "string option" "string option" "string option" "string option"
  | VideoDelete cookie oid
  | VideoLike cookie oid
  | VideoUnlike cookie oid
  | VideoDislike cookie oid
  | VideoUndislike cookie oid
  | CommentCreate cookie oid "string option" "oid option" oid nat
  | CommentLike cookie oid
  | CommentUnlike cookie oid
  | CommentDislike cookie oid
  | CommentUndislike cookie oid
  | CommentUpdate cookie oid "string option"
  | CommentDelete cookie oid
  | ProfileUpdate cookie "string option" "string option"
  | ProfilePicture cookie "string + string option"
  | Subscribe cookie id_string
  | Unsubscribe cookie id_string

fun step :: "request \<Rightarrow> db \<Rightarrow> db" where
  "step (VideoView i) s = fst (video_view s i)"
| "step (VideoCreate jwt up t d c g p n now) s = fst (video_create s jwt up t d c g p n now)"
| "step (VideoUpdate jwt i t d c g) s = fst (video_update s jwt i t d c g)"
| "step (VideoDelete jwt i) s = fst (video_delete s jwt i)"
| "step (VideoLike jwt i) s = fst (video_like s jwt i)"
| "step (VideoUnlike jwt i) s = fst (video_unlike s jwt i)"
| "step (VideoDislike jwt i) s = fst (video_dislike s jwt i)"
| "step (VideoUndislike jwt i) s = fst (video_undislike s jwt i)"
| "step (CommentCreate jwt i c p n now) s = fst (comment_create s jwt i c p n now)"
| "step (CommentLike jwt i) s = fst (comment_like s jwt i)"
| "step (CommentUnlike jwt i) s = fst (comment_unlike s jwt i)"
| "step (CommentDislike jwt i) s = fst (comment_dislike s jwt i)"
| "step (CommentUndislike jwt i) s = fst (comment_undislike s jwt i)"
| "step (CommentUpdate jwt i c) s = fst (comment_update s jwt i c)"
| "step (CommentDelete jwt i) s = fst (comment_delete s jwt i)"
| "step (ProfileUpdate jwt u b) s = fst (profile_update s jwt u b)"
| "step (ProfilePicture jwt up) s = fst (profile_picture s jwt up)"
| "step (Subscribe jwt ch) s = fst (subscribe s jwt ch)"
| "step (Unsubscribe jwt ch) s = fst (unsubscribe s jwt ch)"

text \<open>A sequence of requests, served one after the other.\<close>

fun run :: "request list \<Rightarrow> db \<Rightarrow> db" where
  "run [] s = s"
| "run (r # rs) s = run rs (step r s)"

text \<open>An actor is in at most one of the two engagement sets of a document.\<close>

definition exclusive :: "oid \<Rightarrow> 'a entity_scheme \<Rightarrow> bool" where
  "exclusive a e = (\<not> (a \<in> set (likes e) \<and> a \<in> set (dislikes e)))"

definition video_exclusive :: "oid \<Rightarrow> oid \<Rightarrow> db \<Rightarrow> bool" where
  "video_exclusive a i s = list_all (\<lambda>(j, v). j \<noteq> i \<or> exclusive a v) (videos s)"

definition comment_exclusive :: "oid \<Rightarrow> oid \<Rightarrow> db \<Rightarrow> bool" where
  "comment_exclusive a i s = list_all (\<lambda>(j, c). j \<noteq> i \<or> exclusive a c) (comments s)"

text \<open>Every stored video, and every stored comment, passes the validators of its schema.\<close>

definition videos_valid :: "db \<Rightarrow> bool" where
  "videos_valid s = list_all (\<lambda>(j, v). validate_video v) (videos s)"

definition comments_valid :: "db \<Rightarrow> bool" where
  "comments_valid s = list_all (\<lambda>(j, c). validate_comment c) (comments s)"

text \<open>Writes are told apart by the collection they go to.\<close>

fun op_coll :: "store_op \<Rightarrow> coll" where
  "op_coll (Save c i) = c"
| "op_coll (FindByIdAndUpdate c i) = c"
| "op_coll (FindByIdAndDelete c i) = c"
| "op_coll (DeleteMany c) = c"

section \<open>A small store\<close>

text \<open>
  Two users; one video of the first user, which that user has disliked; one comment of
  the second user on the video, with two replies.
\<close>

definition demo_ann :: user_doc where
  "demo_ann = \<lparr>username = ''ann'', bio = [], profilePicture = [], isAdmin = False,
                subscribers = [], subscribedTo = []\<rparr>"

definition demo_bob :: user_doc where
  "demo_bob = \<lparr>username = ''bob'', bio = [], profilePicture = [], isAdmin = False,
                subscribers = [], subscribedTo = []\<rparr>"

definition demo_video :: video_doc where
  "demo_video = \<lparr>user = 1, likes = [], dislikes = [1], createdAt = 3,
                  title = ''Intro'', description = None, videoUrl = ''/v/a.mp4'',
                  thumbnailUrl = ''/t/a.png'', duration = 60, views = 5,
                  category = ''Music'', tags = []\<rparr>"

definition demo_comment :: comment_doc where
  "demo_comment = \<lparr>user = 2, likes = [], dislikes = [], createdAt = 4,
                    content = ''first'', video = 10, replies = [21, 22],
                    parentComment = None\<rparr>"

definition demo_reply1 :: comment_doc where
  "demo_reply1 = \<lparr>user = 1, likes = [], dislikes = [], createdAt = 5,
                   content = ''thanks'', video = 10, replies = [],
                   parentComment = Some 20\<rparr>"

definition demo_reply2 :: comment_doc where
  "demo_reply2 = \<lparr>user = 2, likes = [], dislikes = [], createdAt = 6,
                   content = ''welcome'', video = 10, replies = [],
                   parentComment = Some 20\<rparr>"

definition demo_db :: db where
  "demo_db = \<lparr>users = [(1, demo_ann), (2, demo_bob)],
               videos = [(10, demo_video)],
               comments = [(20, demo_comment), (21, demo_reply1), (22, demo_reply2)],
               subscriptions = [],
               oplog = []\<rparr>"

text \<open>
  The same store with three videos: two in the category Music and one, video 12, alone in
  the category Sports.
\<close>

definition demo_live :: video_doc where
  "demo_live = \<lparr>user = 1, likes = [], dislikes = [], createdAt = 8,
                 title = ''Live'', description = None, videoUrl = ''/v/b.mp4'',
                 thumbnailUrl = ''/t/b.png'', duration = 90, views = 9,
                 category = ''Music'', tags = []\<rparr>"

definition demo_final :: video_doc where
  "demo_final = \<lparr>user = 2, likes = [], dislikes = [], createdAt = 9,
                  title = ''Final'', description = None, videoUrl = ''/v/c.mp4'',
                  thumbnailUrl = ''/t/c.png'', duration = 30, views = 7,
                  category = ''Sports'', tags = []\<rparr>"

definition demo_catalog :: db where
  "demo_catalog = demo_db\<lparr>videos := [(10, demo_video), (11, demo_live), (12, demo_final)]\<rparr>"

text \<open>The video that an upload with the title Clip and no category stores.\<close>

definition demo_clip :: video_doc where
  "demo_clip = \<lparr>user = 1, likes = [], dislikes = [], createdAt = 12,
                 title = ''Clip'', description = None, videoUrl = ''/v/d.mp4'',
                 thumbnailUrl = ''/t/d.png'', duration = 0, views = 0,
                 category = ''Entertainment'', tags = []\<rparr>"

section \<open>Facts about the store\<close>

lemma findById_updateById:
  "findById i (updateById k f c) = (if i = k then map_option f (findById i c) else findById i c)"
  by (induction c) (auto simp: findById_def updateById_def)

lemma findById_in: "findById i c = Some v \<Longrightarrow> (i, v) \<in> set c"
  by (simp add: findById_def map_of_SomeD)

lemma in_updateById:
  "(i, d') \<in> set (updateById k f c) \<longleftrightarrow>
     (if i = k then \<exists>d. (i, d) \<in> set c \<and> d' = f d else (i, d') \<in> set c)"
  by (induction c) (auto simp: updateById_def split: if_splits)

lemma in_deleteById: "(i, d) \<in> set (deleteById k c) \<longleftrightarrow> i \<noteq> k \<and> (i, d) \<in> set c"
  by (auto simp: deleteById_def)

lemma in_deleteWhere: "(i, d) \<in> set (deleteWhere p c) \<longleftrightarrow> \<not> p d \<and> (i, d) \<in> set c"
  by (auto simp: deleteWhere_def)

lemmas store_in = in_updateById in_deleteById in_deleteWhere

lemma filter_neq_id: "a \<notin> set xs \<Longrightarrow> filter (\<lambda>j. j \<noteq> a) xs = xs"
  by (induction xs) auto

lemma authenticate_cong: "users s' = users s \<Longrightarrow> authenticate s' jwt = authenticate s jwt"
  by (cases jwt) (simp_all add: authenticate_def)

lemma authenticate_Token:
  "authenticate s jwt = Inr (a, u) \<Longrightarrow> jwt = Token a \<and> findById a (users s) = Some u"
  by (cases jwt) (auto simp: authenticate_def split: option.splits)

lemma authenticate_save_video: "authenticate (save_video i d s) jwt = authenticate s jwt"
  by (rule authenticate_cong) (simp add: save_video_def)

lemma validate_video_engagement:
  "validate_video (v\<lparr>likes := l\<rparr>) = validate_video v"
  "validate_video (v\<lparr>dislikes := d\<rparr>) = validate_video v"
  "validate_video (v\<lparr>views := n\<rparr>) = validate_video v"
  by (simp_all add: validate_video_def)

lemma validate_comment_engagement:
  "validate_comment (c\<lparr>likes := l\<rparr>) = validate_comment c"
  "validate_comment (c\<lparr>dislikes := d\<rparr>) = validate_comment c"
  "validate_comment (c\<lparr>replies := r\<rparr>) = validate_comment c"
  by (simp_all add: validate_comment_def)

lemma video_exclusive_iff:
  "video_exclusive a i s \<longleftrightarrow> (\<forall>v. (i, v) \<in> set (videos s) \<longrightarrow> exclusive a v)"
  by (auto simp: video_exclusive_def list_all_iff)

lemma comment_exclusive_iff:
  "comment_exclusive a i s \<longleftrightarrow> (\<forall>c. (i, c) \<in> set (comments s) \<longrightarrow> exclusive a c)"
  by (auto simp: comment_exclusive_def list_all_iff)

section \<open>What each route leaves alone\<close>

lemma comment_like_videos: "videos (fst (comment_like s jwt k)) = videos s"
  by (simp add: comment_like_def save_comment_def Let_def
      split: sum.splits option.splits prod.splits)

lemma video_like_comments: "comments (fst (video_like s jwt k)) = comments s"
  by (simp add: video_like_def save_video_def Let_def
      split: sum.splits option.splits prod.splits)

lemma comment_unlike_videos: "videos (fst (comment_unlike s jwt k)) = videos s"
  by (simp add: comment_unlike_def save_comment_def Let_def
      split: sum.splits option.splits prod.splits)

lemma video_unlike_comments: "comments (fst (video_unlike s jwt k)) = comments s"
  by (simp add: video_unlike_def save_video_def Let_def
      split: sum.splits option.splits prod.splits)

lemma comment_dislike_videos: "videos (fst (comment_dislike s jwt k)) = videos s"
  by (simp add: comment_dislike_def save_comment_def Let_def
      split: sum.splits option.splits prod.splits)

lemma video_dislike_comments: "comments (fst (video_dislike s jwt k)) = comments s"
  by (simp add: video_dislike_def save_video_def Let_def
      split: sum.splits option.splits prod.splits)

lemma comment_undislike_videos: "videos (fst (comment_undislike s jwt k)) = videos s"
  by (simp add: comment_undislike_def save_comment_def Let_def
      split: sum.splits option.splits prod.splits)

lemma video_undislike_comments: "comments (fst (video_undislike s jwt k)) = comments s"
  by (simp add: video_undislike_def save_video_def Let_def
      split: sum.splits option.splits prod.splits)

lemma comment_create_videos: "videos (fst (comment_create s jwt k c p n now)) = videos s"
  by (simp add: comment_create_def Let_def split: sum.splits option.splits prod.splits)

lemma comment_update_videos: "videos (fst (comment_update s jwt k c)) = videos s"
  by (simp add: comment_update_def save_comment_def Let_def
      split: sum.splits option.splits prod.splits)

lemma comment_delete_videos: "videos (fst (comment_delete s jwt k)) = videos s"
  by (simp add: comment_delete_def Let_def split: sum.splits option.splits prod.splits)

lemma profile_update_videos: "videos (fst (profile_update s jwt u b)) = videos s"
  by (simp add: profile_update_def Let_def split: sum.splits option.splits prod.splits)

lemma profile_picture_videos: "videos (fst (profile_picture s jwt up)) = videos s"
  by (simp add: profile_picture_def Let_def split: sum.splits option.splits prod.splits)

lemma subscribe_videos: "videos (fst (subscribe s jwt ch)) = videos s"
  by (simp add: subscribe_def Let_def split: sum.splits option.splits prod.splits)

lemma unsubscribe_videos: "videos (fst (unsubscribe s jwt ch)) = videos s"
  by (simp add: unsubscribe_def Let_def split: sum.splits option.splits prod.splits)

lemma video_view_comments: "comments (fst (video_view s k)) = comments s"
  by (simp add: video_view_def Let_def split: option.splits)

lemma video_create_comments:
  "comments (fst (video_create s jwt up t d c g p n now)) = comments s"
  by (simp add: video_create_def Let_def split: sum.splits option.splits prod.splits)

lemma video_update_comments: "comments (fst (video_update s jwt k t d c g)) = comments s"
  by (simp add: video_update_def save_video_def Let_def
      split: sum.splits option.splits prod.splits)

lemma profile_update_comments: "comments (fst (profile_update s jwt u b)) = comments s"
  by (simp add: profile_update_def Let_def split: sum.splits option.splits prod.splits)

lemma profile_picture_comments: "comments (fst (profile_picture s jwt up)) = comments s"
  by (simp add: profile_picture_def Let_def split: sum.splits option.splits prod.splits)

lemma subscribe_comments: "comments (fst (subscribe s jwt ch)) = comments s"
  by (simp add: subscribe_def Let_def split: sum.splits option.splits prod.splits)

lemma unsubscribe_comments: "comments (fst (unsubscribe s jwt ch)) = comments s"
  by (simp add: unsubscribe_def Let_def split: sum.splits option.splits prod.splits)

lemmas keeps_videos = comment_like_videos comment_unlike_videos comment_dislike_videos
  comment_undislike_videos comment_create_videos comment_update_videos comment_delete_videos
  profile_update_videos profile_picture_videos subscribe_videos unsubscribe_videos

lemmas keeps_comments = video_like_comments video_unlike_comments video_dislike_comments
  video_undislike_comments video_view_comments video_create_comments video_update_comments
  profile_update_comments profile_picture_comments subscribe_comments unsubscribe_comments

section \<open>Likes and dislikes exclude each other\<close>

lemma video_like_exclusive:
  "video_exclusive a i s \<Longrightarrow> video_exclusive a i (fst (video_like s jwt k))"
  unfolding video_exclusive_iff
  by (auto simp: video_like_def save_video_def Let_def store_in exclusive_def
      dest: findById_in split: sum.splits option.splits if_splits)

lemma comment_like_exclusive:
  "comment_exclusive a i s \<Longrightarrow> comment_exclusive a i (fst (comment_like s jwt k))"
  unfolding comment_exclusive_iff
  by (auto simp: comment_like_def save_comment_def Let_def store_in exclusive_def
      dest: findById_in split: sum.splits option.splits if_splits)

lemma video_unlike_exclusive:
  "video_exclusive a i s \<Longrightarrow> video_exclusive a i (fst (video_unlike s jwt k))"
  unfolding video_exclusive_iff
  by (auto simp: video_unlike_def save_video_def Let_def store_in exclusive_def
      dest: findById_in split: sum.splits option.splits if_splits)

lemma comment_unlike_exclusive:
  "comment_exclusive a i s \<Longrightarrow> comment_exclusive a i (fst (comment_unlike s jwt k))"
  unfolding comment_exclusive_iff
  by (auto simp: comment_unlike_def save_comment_def Let_def store_in exclusive_def
      dest: findById_in split: sum.splits option.splits if_splits)

lemma video_dislike_exclusive:
  "video_exclusive a i s \<Longrightarrow> video_exclusive a i (fst (video_dislike s jwt k))"
  unfolding video_exclusive_iff
  by (auto simp: video_dislike_def save_video_def Let_def store_in exclusive_def
      dest: findById_in split: sum.splits option.splits if_splits)

lemma comment_dislike_exclusive:
  "comment_exclusive a i s \<Longrightarrow> comment_exclusive a i (fst (comment_dislike s jwt k))"
  unfolding comment_exclusive_iff
  by (auto simp: comment_dislike_def save_comment_def Let_def store_in exclusive_def
      dest: findById_in split: sum.splits option.splits if_splits)

lemma video_undislike_exclusive:
  "video_exclusive a i s \<Longrightarrow> video_exclusive a i (fst (video_undislike s jwt k))"
  unfolding video_exclusive_iff
  by (auto simp: video_undislike_def save_video_def Let_def store_in exclusive_def
      dest: findById_in split: sum.splits option.splits if_splits)

lemma comment_undislike_exclusive:
  "comment_exclusive a i s \<Longrightarrow> comment_exclusive a i (fst (comment_undislike s jwt k))"
  unfolding comment_exclusive_iff
  by (auto simp: comment_undislike_def save_comment_def Let_def store_in exclusive_def
      dest: findById_in split: sum.splits option.splits if_splits)

lemma video_view_exclusive:
  "video_exclusive a i s \<Longrightarrow> video_exclusive a i (fst (video_view s k))"
  unfolding video_exclusive_iff
  by (auto simp: video_view_def Let_def store_in exclusive_def split: option.splits if_splits)

lemma video_create_exclusive:
  "video_exclusive a i s \<Longrightarrow> video_exclusive a i (fst (video_create s jwt up t d c g p n now))"
  unfolding video_exclusive_iff
  by (auto simp: video_create_def Let_def exclusive_def
      split: sum.splits option.splits if_splits prod.splits)

lemma video_update_exclusive:
  "video_exclusive a i s \<Longrightarrow> video_exclusive a i (fst (video_update s jwt k t d c g))"
  unfolding video_exclusive_iff
  by (auto simp: video_update_def save_video_def Let_def store_in exclusive_def
      dest!: findById_in split: sum.splits option.splits if_splits)

lemma video_delete_exclusive:
  "video_exclusive a i s \<Longrightarrow> video_exclusive a i (fst (video_delete s jwt k))"
  unfolding video_exclusive_iff
  by (auto simp: video_delete_def Let_def store_in split: sum.splits option.splits if_splits)

lemma video_delete_comment_exclusive:
  "comment_exclusive a i s \<Longrightarrow> comment_exclusive a i (fst (video_delete s jwt k))"
  unfolding comment_exclusive_iff
  by (auto simp: video_delete_def Let_def store_in split: sum.splits option.splits if_splits)

lemma comment_create_exclusive:
  "comment_exclusive a i s \<Longrightarrow> comment_exclusive a i (fst (comment_create s jwt k c p n now))"
  unfolding comment_exclusive_iff
  by (auto simp: comment_create_def Let_def store_in exclusive_def
      split: sum.splits option.splits if_splits)

lemma comment_update_exclusive:
  "comment_exclusive a i s \<Longrightarrow> comment_exclusive a i (fst (comment_update s jwt k c))"
  unfolding comment_exclusive_iff
  by (auto simp: comment_update_def save_comment_def Let_def store_in exclusive_def
      dest!: findById_in split: sum.splits option.splits if_splits)

lemma comment_delete_exclusive:
  "comment_exclusive a i s \<Longrightarrow> comment_exclusive a i (fst (comment_delete s jwt k))"
  unfolding comment_exclusive_iff
  by (auto simp: comment_delete_def Let_def store_in exclusive_def
      split: sum.splits option.splits if_splits)

lemma step_video_exclusive: "video_exclusive a i s \<Longrightarrow> video_exclusive a i (step r s)"
  by (cases r)
    (simp_all add: video_like_exclusive video_unlike_exclusive video_dislike_exclusive
      video_undislike_exclusive video_view_exclusive video_create_exclusive
      video_update_exclusive video_delete_exclusive,
     simp_all add: video_exclusive_def keeps_videos)

lemma step_comment_exclusive: "comment_exclusive a i s \<Longrightarrow> comment_exclusive a i (step r s)"
  by (cases r)
    (simp_all add: comment_like_exclusive comment_unlike_exclusive comment_dislike_exclusive
      comment_undislike_exclusive comment_create_exclusive comment_update_exclusive
      comment_delete_exclusive video_delete_comment_exclusive,
     simp_all add: comment_exclusive_def keeps_comments)

lemma run_video_exclusive: "video_exclusive a i s \<Longrightarrow> video_exclusive a i (run rs s)"
  by (induction rs arbitrary: s) (simp_all add: step_video_exclusive)

lemma run_comment_exclusive: "comment_exclusive a i s \<Longrightarrow> comment_exclusive a i (run rs s)"
  by (induction rs arbitrary: s) (simp_all add: step_comment_exclusive)

text \<open>
  C1. For a video or a comment with identifier \<open>i\<close> and an actor \<open>a\<close>: when \<open>a\<close> is
  not in both \<open>likes\<close> and \<open>dislikes\<close> of the document before, then \<open>a\<close> is not in
  both after any sequence of requests served one after the other: like, unlike, dislike
  and undislike by any actors on any targets, and every other writing route as well.
\<close>

theorem likes_dislikes_exclusive:
  "(video_exclusive a i s \<longrightarrow> video_exclusive a i (run rs s)) \<and>
   (comment_exclusive a i s \<longrightarrow> comment_exclusive a i (run rs s))"
  by (simp add: run_video_exclusive run_comment_exclusive)

theorem likes_dislikes_exclusive_witness:
  "video_exclusive 1 10 demo_db \<and>
   video_exclusive 1 10
     (run [VideoLike (Token 1) 10, CommentDislike (Token 2) 20, VideoDislike (Token 1) 10,
           CommentLike (Token 2) 20, VideoUndislike (Token 1) 10, VideoLike (Token 2) 10]
        demo_db) \<and>
   comment_exclusive 2 20 demo_db \<and>
   comment_exclusive 2 20
     (run [VideoLike (Token 1) 10, CommentDislike (Token 2) 20, VideoDislike (Token 1) 10,
           CommentLike (Token 2) 20, VideoUndislike (Token 1) 10, VideoLike (Token 2) 10]
        demo_db)"
proof -
  let ?rs = "[VideoLike (Token 1) 10, CommentDislike (Token 2) 20, VideoDislike (Token 1) 10,
              CommentLike (Token 2) 20, VideoUndislike (Token 1) 10, VideoLike (Token 2) 10]"
  have v: "video_exclusive 1 10 demo_db"
    by (simp add: video_exclusive_def demo_db_def demo_video_def exclusive_def)
  have c: "comment_exclusive 2 20 demo_db"
    by (simp add: comment_exclusive_def demo_db_def demo_comment_def exclusive_def)
  show ?thesis
    using likes_dislikes_exclusive [of 1 10 demo_db ?rs]
      likes_dislikes_exclusive [of 2 20 demo_db ?rs] v c
    by blast
qed

section \<open>Stored documents stay valid\<close>

lemma videos_valid_iff:
  "videos_valid s \<longleftrightarrow> (\<forall>i v. (i, v) \<in> set (videos s) \<longrightarrow> validate_video v)"
  by (auto simp: videos_valid_def list_all_iff)

lemma comments_valid_iff:
  "comments_valid s \<longleftrightarrow> (\<forall>i c. (i, c) \<in> set (comments s) \<longrightarrow> validate_comment c)"
  by (auto simp: comments_valid_def list_all_iff)

lemma step_videos_valid: "videos_valid s \<Longrightarrow> videos_valid (step r s)"
proof (cases r)
  case (VideoView i)
  assume "videos_valid s"
  then show ?thesis
    unfolding videos_valid_iff VideoView
    by (auto simp: video_view_def Let_def store_in validate_video_engagement
        split: option.splits if_splits)
next
  case (VideoCreate jwt up t d c g p n now)
  assume "videos_valid s"
  then show ?thesis
    unfolding videos_valid_iff VideoCreate
    by (auto simp: video_create_def Let_def
        split: sum.splits option.splits if_splits prod.splits)
next
  case (VideoUpdate jwt i t d c g)
  assume "videos_valid s"
  then show ?thesis
    unfolding videos_valid_iff VideoUpdate
    by (auto simp: video_update_def save_video_def Let_def store_in
        split: sum.splits option.splits if_splits)
next
  case (VideoDelete jwt i)
  assume "videos_valid s"
  then show ?thesis
    unfolding videos_valid_iff VideoDelete
    by (auto simp: video_delete_def Let_def store_in split: sum.splits option.splits if_splits)
next
  case (VideoLike jwt i)
  assume "videos_valid s"
  then show ?thesis
    unfolding videos_valid_iff VideoLike
    by (auto simp: video_like_def save_video_def Let_def store_in
        split: sum.splits option.splits if_splits)
next
  case (VideoUnlike jwt i)
  assume "videos_valid s"
  then show ?thesis
    unfolding videos_valid_iff VideoUnlike
    by (auto simp: video_unlike_def save_video_def Let_def store_in
        split: sum.splits option.splits if_splits)
next
  case (VideoDislike jwt i)
  assume "videos_valid s"
  then show ?thesis
    unfolding videos_valid_iff VideoDislike
    by (auto simp: video_dislike_def save_video_def Let_def store_in
        split: sum.splits option.splits if_splits)
next
  case (VideoUndislike jwt i)
  assume "videos_valid s"
  then show ?thesis
    unfolding videos_valid_iff VideoUndislike
    by (auto simp: video_undislike_def save_video_def Let_def store_in
        split: sum.splits option.splits if_splits)
qed (simp_all add: videos_valid_def keeps_videos)

text \<open>
  A store in which every video passes the validators stays such a store under every
  sequence of requests; the empty collection is one.
\<close>

lemma run_videos_valid: "videos_valid s \<Longrightarrow> videos_valid (run rs s)"
  by (induction rs arbitrary: s) (simp_all add: step_videos_valid)

lemma step_comments_valid: "comments_valid s \<Longrightarrow> comments_valid (step r s)"
proof (cases r)
  case (VideoDelete jwt i)
  assume "comments_valid s"
  then show ?thesis
    unfolding comments_valid_iff VideoDelete
    by (auto simp: video_delete_def Let_def store_in validate_comment_engagement
        split: sum.splits option.splits if_splits)
next
  case (CommentCreate jwt i c p n now)
  assume "comments_valid s"
  then show ?thesis
    unfolding comments_valid_iff CommentCreate
    by (auto simp: comment_create_def Let_def store_in validate_comment_def
        split: sum.splits option.splits if_splits)
next
  case (CommentLike jwt i)
  assume "comments_valid s"
  then show ?thesis
    unfolding comments_valid_iff CommentLike
    by (auto simp: comment_like_def save_comment_def Let_def store_in validate_comment_engagement
        split: sum.splits option.splits if_splits)
next
  case (CommentUnlike jwt i)
  assume "comments_valid s"
  then show ?thesis
    unfolding comments_valid_iff CommentUnlike
    by (auto simp: comment_unlike_def save_comment_def Let_def store_in validate_comment_engagement
        split: sum.splits option.splits if_splits)
next
  case (CommentDislike jwt i)
  assume "comments_valid s"
  then show ?thesis
    unfolding comments_valid_iff CommentDislike
    by (auto simp: comment_dislike_def save_comment_def Let_def store_in validate_comment_engagement
        split: sum.splits option.splits if_splits)
next
  case (CommentUndislike jwt i)
  assume "comments_valid s"
  then show ?thesis
    unfolding comments_valid_iff CommentUndislike
    by (auto simp: comment_undislike_def save_comment_def Let_def store_in validate_comment_engagement
        split: sum.splits option.splits if_splits)
next
  case (CommentUpdate jwt i c)
  assume "comments_valid s"
  then show ?thesis
    unfolding comments_valid_iff CommentUpdate
    by (auto simp: comment_update_def save_comment_def Let_def store_in validate_comment_engagement
        split: sum.splits option.splits if_splits)
next
  case (CommentDelete jwt i)
  assume "comments_valid s"
  then show ?thesis
    unfolding comments_valid_iff CommentDelete
    by (auto simp: comment_delete_def Let_def store_in validate_comment_engagement
        split: sum.splits option.splits if_splits)
qed (simp_all add: comments_valid_def keeps_comments)

lemma run_comments_valid: "comments_valid s \<Longrightarrow> comments_valid (run rs s)"
  by (induction rs arbitrary: s) (simp_all add: step_comments_valid)

lemma videos_valid_found:
  "videos_valid s \<Longrightarrow> findById i (videos s) = Some v \<Longrightarrow> validate_video v"
  unfolding videos_valid_iff by (blast dest: findById_in)

section \<open>Like and dislike\<close>

text \<open>
  C2. For a video that exists (a stored video passes the validators of its schema, see
  \<open>run_videos_valid\<close>) and an authenticated actor \<open>a\<close>: like answers 400 and leaves the
  store as it is when \<open>a\<close> is in \<open>likes\<close>; otherwise it takes \<open>a\<close> out of
  \<open>dislikes\<close>, appends \<open>a\<close> to \<open>likes\<close>, saves the video once and answers with the
  two new counts. Dislike does the same with \<open>likes\<close> and \<open>dislikes\<close> exchanged.
\<close>

theorem video_like_dislike_contract:
  assumes "authenticate s jwt = Inr (a, u)" and "findById i (videos s) = Some v"
    and "validate_video v"
  shows "video_like s jwt i =
           (if a \<in> set (likes v) then (s, Inl (400, ''Video already liked''))
            else let v' = v\<lparr>dislikes := filter (\<lambda>j. j \<noteq> a) (dislikes v),
                             likes := likes v @ [a]\<rparr>
                 in (s\<lparr>videos := updateById i (\<lambda>_. v') (videos s),
                       oplog := oplog s @ [Save Videos i]\<rparr>,
                     Inr (length (likes v'), length (dislikes v')))) \<and>
         video_dislike s jwt i =
           (if a \<in> set (dislikes v) then (s, Inl (400, ''Video already disliked''))
            else let v' = v\<lparr>likes := filter (\<lambda>j. j \<noteq> a) (likes v),
                             dislikes := dislikes v @ [a]\<rparr>
                 in (s\<lparr>videos := updateById i (\<lambda>_. v') (videos s),
                       oplog := oplog s @ [Save Videos i]\<rparr>,
                     Inr (length (likes v'), length (dislikes v'))))"
proof -
  have l: "a \<notin> set (dislikes v) \<Longrightarrow> filter (\<lambda>j. j \<noteq> a) (dislikes v) = dislikes v"
    by (rule filter_neq_id)
  have d: "a \<notin> set (likes v) \<Longrightarrow> filter (\<lambda>j. j \<noteq> a) (likes v) = likes v"
    by (rule filter_neq_id)
  show ?thesis
    using assms l d
    by (simp add: video_like_def video_dislike_def save_video_def Let_def
        validate_video_engagement)
qed

theorem video_like_dislike_contract_witness:
  "authenticate demo_db (Token 1) = Inr (1, demo_ann) \<and>
   findById 10 (videos demo_db) = Some demo_video \<and> validate_video demo_video \<and>
   video_like demo_db (Token 1) 10 =
     (demo_db\<lparr>videos := [(10, demo_video\<lparr>dislikes := [], likes := [1]\<rparr>)],
              oplog := [Save Videos 10]\<rparr>, Inr (1, 0)) \<and>
   video_dislike demo_db (Token 1) 10 = (demo_db, Inl (400, ''Video already disliked''))"
proof -
  have a: "authenticate demo_db (Token 1) = Inr (1, demo_ann)"
    by (simp add: authenticate_def findById_def demo_db_def)
  have f: "findById 10 (videos demo_db) = Some demo_video"
    by (simp add: findById_def demo_db_def)
  have w: "validate_video demo_video"
    by (simp add: validate_video_def categories_def demo_video_def)
  have l: "likes demo_video = []" and d: "dislikes demo_video = [1]"
    by (simp_all add: demo_video_def)
  have u: "updateById 10 (\<lambda>_. x) (videos demo_db) = [(10, x)]" for x
    by (simp add: updateById_def demo_db_def)
  have o: "oplog demo_db = []"
    by (simp add: demo_db_def)
  show ?thesis
    using video_like_dislike_contract [OF a f w] a f w by (simp add: l d u o)
qed

section \<open>Like, then unlike\<close>

text \<open>
  C3, as the code has it. For a video that exists (and passes the validators of its
  schema) and an authenticated actor \<open>a\<close> who has not liked it: like succeeds, and
  unlike after it answers with the number of likes there was before the like and with the
  number of dislikes by others; the video then stored is the video before the like
  without the dislikes of \<open>a\<close>. So when \<open>a\<close> had not disliked the video either, both
  counts are back at their values before the like and the stored video is the video
  before the like. Unlike by an actor who has not liked the video changes nothing,
  writes nothing and answers with the counts as they are.
\<close>

theorem video_like_then_unlike:
  assumes "authenticate s jwt = Inr (a, u)" and "findById i (videos s) = Some v"
    and "validate_video v" and "a \<notin> set (likes v)"
  shows "snd (video_like s jwt i) =
           Inr (length (likes v) + 1, length (filter (\<lambda>j. j \<noteq> a) (dislikes v))) \<and>
         snd (video_unlike (fst (video_like s jwt i)) jwt i) =
           Inr (length (likes v), length (filter (\<lambda>j. j \<noteq> a) (dislikes v))) \<and>
         findById i (videos (fst (video_unlike (fst (video_like s jwt i)) jwt i))) =
           Some (v\<lparr>dislikes := filter (\<lambda>j. j \<noteq> a) (dislikes v)\<rparr>) \<and>
         (a \<notin> set (dislikes v) \<longrightarrow>
            snd (video_unlike (fst (video_like s jwt i)) jwt i) =
              Inr (length (likes v), length (dislikes v)) \<and>
            findById i (videos (fst (video_unlike (fst (video_like s jwt i)) jwt i))) =
              Some v) \<and>
         video_unlike s jwt i = (s, Inr (length (likes v), length (dislikes v)))"
proof -
  let ?f = "filter (\<lambda>j. j \<noteq> a) (dislikes v)"
  let ?v' = "v\<lparr>dislikes := ?f, likes := likes v @ [a]\<rparr>"
  let ?s' = "save_video i ?v' s"
  let ?w = "v\<lparr>dislikes := ?f\<rparr>"
  have d: "a \<notin> set (dislikes v) \<Longrightarrow> ?f = dislikes v"
    by (rule filter_neq_id)
  have like: "video_like s jwt i = (?s', Inr (length (likes v) + 1, length ?f))"
    using assms d by (simp add: video_like_def Let_def validate_video_engagement)
  have auth': "authenticate ?s' jwt = Inr (a, u)"
    using assms(1) by (simp add: authenticate_save_video)
  have found: "findById i (videos ?s') = Some ?v'"
    using assms(2) by (simp add: save_video_def findById_updateById)
  have unlike: "video_unlike ?s' jwt i = (save_video i ?w ?s', Inr (length (likes v), length ?f))"
    using auth' found assms(3,4)
    by (simp add: video_unlike_def Let_def validate_video_engagement filter_neq_id)
  have found': "findById i (videos (save_video i ?w ?s')) = Some ?w"
    using found by (simp add: save_video_def findById_updateById)
  have noop: "video_unlike s jwt i = (s, Inr (length (likes v), length (dislikes v)))"
    using assms by (simp add: video_unlike_def)
  have r0: "snd (video_like s jwt i) = Inr (length (likes v) + 1, length ?f)"
    by (simp only: like snd_conv)
  have r1: "snd (video_unlike (fst (video_like s jwt i)) jwt i) =
      Inr (length (likes v), length ?f)"
    by (simp only: like unlike fst_conv snd_conv)
  have st: "findById i (videos (fst (video_unlike (fst (video_like s jwt i)) jwt i))) =
      Some ?w"
    by (simp only: like unlike fst_conv found')
  have r2: "snd (video_unlike (fst (video_like s jwt i)) jwt i) =
        Inr (length (likes v), length (dislikes v)) \<and>
      findById i (videos (fst (video_unlike (fst (video_like s jwt i)) jwt i))) = Some v"
    if n: "a \<notin> set (dislikes v)"
    unfolding r1 st d [OF n] by simp
  show ?thesis
    using r0 r1 st r2 noop by blast
qed

text \<open>The second user has neither liked nor disliked the video of the small store.\<close>

theorem video_like_then_unlike_witness:
  "authenticate demo_db (Token 2) = Inr (2, demo_bob) \<and>
   findById 10 (videos demo_db) = Some demo_video \<and> validate_video demo_video \<and>
   2 \<notin> set (likes demo_video) \<and> 2 \<notin> set (dislikes demo_video) \<and>
   snd (video_like demo_db (Token 2) 10) = Inr (1, 1) \<and>
   snd (video_unlike (fst (video_like demo_db (Token 2) 10)) (Token 2) 10) = Inr (0, 1) \<and>
   findById 10 (videos (fst (video_unlike (fst (video_like demo_db (Token 2) 10)) (Token 2) 10))) =
     Some demo_video \<and>
   video_unlike demo_db (Token 2) 10 = (demo_db, Inr (0, 1))"
proof -
  have a: "authenticate demo_db (Token 2) = Inr (2, demo_bob)"
    by (simp add: authenticate_def findById_def demo_db_def)
  have f: "findById 10 (videos demo_db) = Some demo_video"
    by (simp add: findById_def demo_db_def)
  have w: "validate_video demo_video"
    by (simp add: validate_video_def categories_def demo_video_def)
  have n: "2 \<notin> set (likes demo_video)" and m: "2 \<notin> set (dislikes demo_video)"
    by (simp_all add: demo_video_def)
  have l: "length (likes demo_video) = 0" and d: "length (dislikes demo_video) = 1"
    and e: "length (filter (\<lambda>j. j \<noteq> 2) (dislikes demo_video)) = 1"
    by (simp_all add: demo_video_def)
  from video_like_then_unlike [OF a f w n] m
  have r0: "snd (video_like demo_db (Token 2) 10) =
      Inr (length (likes demo_video) + 1,
           length (filter (\<lambda>j. j \<noteq> 2) (dislikes demo_video)))"
    and r: "snd (video_unlike (fst (video_like demo_db (Token 2) 10)) (Token 2) 10) =
      Inr (length (likes demo_video), length (dislikes demo_video))"
    and st: "findById 10
        (videos (fst (video_unlike (fst (video_like demo_db (Token 2) 10)) (Token 2) 10))) =
      Some demo_video"
    and q: "video_unlike demo_db (Token 2) 10 =
      (demo_db, Inr (length (likes demo_video), length (dislikes demo_video)))"
    by blast+
  show ?thesis
    unfolding r0 r st q l d e using a f w n m by simp
qed

text \<open>
  The first user has disliked the video: the counts are 0 likes and 1 dislike. Like
  answers 1 and 0, unlike then answers 0 and 0, not 0 and 1, and the video then stored
  has no dislike.
\<close>

theorem video_like_then_unlike_counterexample:
  "findById 10 (videos demo_db) = Some demo_video \<and>
   (length (likes demo_video), length (dislikes demo_video)) = (0, 1) \<and>
   snd (video_like demo_db (Token 1) 10) = Inr (1, 0) \<and>
   snd (video_unlike (fst (video_like demo_db (Token 1) 10)) (Token 1) 10) = Inr (0, 0) \<and>
   snd (video_unlike (fst (video_like demo_db (Token 1) 10)) (Token 1) 10) \<noteq>
     Inr (length (likes demo_video), length (dislikes demo_video)) \<and>
   findById 10 (videos (fst (video_unlike (fst (video_like demo_db (Token 1) 10)) (Token 1) 10))) =
     Some (demo_video\<lparr>dislikes := []\<rparr>)"
  by (simp add: video_like_def video_unlike_def authenticate_def findById_def save_video_def
      updateById_def validate_video_def categories_def demo_db_def demo_video_def Let_def)

section \<open>Deleting a video\<close>

text \<open>
  C5. Whenever the delete of video \<open>i\<close> succeeds, no comment that is left refers to
  \<open>i\<close>: the comments left are the comments on other videos, untouched, and the video is
  gone. The delete succeeds for the owner of the video and for an administrator.
\<close>

theorem video_delete_cascade:
  "(\<forall>m. snd (video_delete s jwt i) = Inr m \<longrightarrow>
      filter (\<lambda>(j, c). video c = i) (comments (fst (video_delete s jwt i))) = [] \<and>
      comments (fst (video_delete s jwt i)) = filter (\<lambda>(j, c). video c \<noteq> i) (comments s) \<and>
      findById i (videos (fst (video_delete s jwt i))) = None) \<and>
   (authenticate s jwt = Inr (a, u) \<and> findById i (videos s) = Some v \<and>
      (user v = a \<or> isAdmin u) \<longrightarrow>
      snd (video_delete s jwt i) = Inr ''Video deleted successfully'')"
proof -
  have del: "findById i (deleteById i vs) = None" for vs :: "(oid \<times> video_doc) list"
    by (induction vs) (auto simp: findById_def deleteById_def)
  show ?thesis
    by (auto simp: video_delete_def Let_def deleteWhere_def del filter_empty_conv
        split: sum.splits option.splits if_splits)
qed

text \<open>The video of the small store has three comments, one of them top-level.\<close>

theorem video_delete_cascade_witness:
  "authenticate demo_db (Token 1) = Inr (1, demo_ann) \<and>
   findById 10 (videos demo_db) = Some demo_video \<and> user demo_video = 1 \<and>
   length (filter (\<lambda>(j, c). video c = 10) (comments demo_db)) = 3 \<and>
   snd (video_delete demo_db (Token 1) 10) = Inr ''Video deleted successfully'' \<and>
   filter (\<lambda>(j, c). video c = 10) (comments (fst (video_delete demo_db (Token 1) 10))) = []"
proof -
  have a: "authenticate demo_db (Token 1) = Inr (1, demo_ann)"
    by (simp add: authenticate_def findById_def demo_db_def)
  have f: "findById 10 (videos demo_db) = Some demo_video"
    by (simp add: findById_def demo_db_def)
  have o: "user demo_video = 1"
    by (simp add: demo_video_def)
  have n: "length (filter (\<lambda>(j, c). video c = 10) (comments demo_db)) = 3"
    by (simp add: demo_db_def demo_comment_def demo_reply1_def demo_reply2_def)
  show ?thesis
    using video_delete_cascade [of demo_db "Token 1" 10 1 demo_ann demo_video] a f o n
    by blast
qed

section \<open>Deleting a comment\<close>

lemma reply_count_map:
  "length (filter (\<lambda>(j, d). parentComment d = Some p)
     (map (\<lambda>(j, d). if j = p then (j, d\<lparr>replies := f d\<rparr>) else (j, d)) cs)) =
   length (filter (\<lambda>(j, d). parentComment d = Some p) cs)"
  by (induction cs) (auto simp del: filter_map length_filter_map split: if_splits)

lemma filter_id_absent:
  "i \<notin> fst ` set cs \<Longrightarrow>
   filter (\<lambda>(j, d). j \<noteq> i) (map (\<lambda>(j, d). if j = p then (j, g d) else (j, d)) cs) =
   map (\<lambda>(j, d). if j = p then (j, g d) else (j, d)) cs"
  by (induction cs) (auto simp del: filter_map length_filter_map split: if_splits)

lemma reply_count_delete:
  "distinct (map fst cs) \<Longrightarrow> map_of cs i = Some c \<Longrightarrow> parentComment c = Some p \<Longrightarrow>
   length (filter (\<lambda>(j, d). parentComment d = Some p)
     (filter (\<lambda>(j, d). j \<noteq> i)
        (map (\<lambda>(j, d). if j = p then (j, d\<lparr>replies := f d\<rparr>) else (j, d)) cs))) =
   length (filter (\<lambda>(j, d). parentComment d = Some p) cs) - 1"
proof (induction cs)
  case Nil
  then show ?case by simp
next
  case (Cons x cs)
  obtain j d where x: "x = (j, d)" by (cases x)
  show ?case
  proof (cases "j = i")
    case True
    with Cons.prems x have d: "d = c" and absent: "i \<notin> fst ` set cs" by auto
    have "filter (\<lambda>(j, d). j \<noteq> i)
            (map (\<lambda>(j, d). if j = p then (j, d\<lparr>replies := f d\<rparr>) else (j, d)) cs) =
          map (\<lambda>(j, d). if j = p then (j, d\<lparr>replies := f d\<rparr>) else (j, d)) cs"
      using absent by (rule filter_id_absent)
    then show ?thesis
      using True x d Cons.prems(3)
      by (simp add: reply_count_map del: filter_filter filter_map length_filter_map)
  next
    case False
    with Cons.prems x have ih: "distinct (map fst cs)" "map_of cs i = Some c" by auto
    have pos: "0 < length (filter (\<lambda>(j, d). parentComment d = Some p) cs)"
      using ih(2) Cons.prems(3) by (auto simp: filter_empty_conv dest: map_of_SomeD)
    show ?thesis
      using Cons.IH [OF ih Cons.prems(3)] False x pos
      by (auto simp del: filter_filter filter_map length_filter_map)
  qed
qed

text \<open>
  C6. A delete of comment \<open>i\<close> by its author or an administrator succeeds. When the
  comment is top-level, what is left is every comment other than \<open>i\<close> and other than the
  replies to \<open>i\<close> (the comments whose \<open>parentComment\<close> is \<open>i\<close>), untouched. When the
  comment is a reply to \<open>p\<close>, what is left is every comment other than \<open>i\<close>, where
  \<open>p\<close> has lost \<open>i\<close>, and nothing else, from its \<open>replies\<close>; so with identifiers
  that are unique, of the K replies to \<open>p\<close> there are K - 1 left.
\<close>

theorem comment_delete_cascade:
  assumes "authenticate s jwt = Inr (a, u)" and "findById i (comments s) = Some c"
    and "user c = a \<or> isAdmin u"
  shows "snd (comment_delete s jwt i) = Inr ''Comment deleted successfully'' \<and>
         (parentComment c = None \<longrightarrow>
            comments (fst (comment_delete s jwt i)) =
              filter (\<lambda>(j, d). j \<noteq> i \<and> parentComment d \<noteq> Some i) (comments s)) \<and>
         (\<forall>p. parentComment c = Some p \<longrightarrow>
            comments (fst (comment_delete s jwt i)) =
              filter (\<lambda>(j, d). j \<noteq> i)
                (map (\<lambda>(j, d). if j = p
                                then (j, d\<lparr>replies := filter (\<lambda>r. r \<noteq> i) (replies d)\<rparr>)
                                else (j, d)) (comments s)) \<and>
            (distinct (map fst (comments s)) \<longrightarrow>
               length (filter (\<lambda>(j, d). parentComment d = Some p)
                         (comments (fst (comment_delete s jwt i)))) =
               length (filter (\<lambda>(j, d). parentComment d = Some p) (comments s)) - 1))"
proof -
  have ok: "snd (comment_delete s jwt i) = Inr ''Comment deleted successfully''"
    using assms by (auto simp: comment_delete_def Let_def)
  have top: "comments (fst (comment_delete s jwt i)) =
      filter (\<lambda>(j, d). j \<noteq> i \<and> parentComment d \<noteq> Some i) (comments s)"
    if "parentComment c = None"
    using assms that
    by (auto simp: comment_delete_def Let_def deleteWhere_def deleteById_def intro!: filter_cong)
  have reply: "comments (fst (comment_delete s jwt i)) =
      filter (\<lambda>(j, d). j \<noteq> i)
        (map (\<lambda>(j, d). if j = p
                        then (j, d\<lparr>replies := filter (\<lambda>r. r \<noteq> i) (replies d)\<rparr>)
                        else (j, d)) (comments s))"
    if "parentComment c = Some p" for p
    using assms that
    by (auto simp: comment_delete_def Let_def deleteById_def updateById_def pull_def)
  have count: "length (filter (\<lambda>(j, d). parentComment d = Some p)
                         (comments (fst (comment_delete s jwt i)))) =
               length (filter (\<lambda>(j, d). parentComment d = Some p) (comments s)) - 1"
    if p: "parentComment c = Some p" and dist: "distinct (map fst (comments s))" for p
    unfolding reply [OF p]
    using dist assms(2) p unfolding findById_def by (rule reply_count_delete)
  show ?thesis
    using ok top reply count by blast
qed

text \<open>
  In the small store the first user deletes the first of the two replies to comment 20,
  and the second user deletes comment 20 with its two replies.
\<close>

theorem comment_delete_cascade_witness:
  "authenticate demo_db (Token 1) = Inr (1, demo_ann) \<and>
   findById 21 (comments demo_db) = Some demo_reply1 \<and> user demo_reply1 = 1 \<and>
   parentComment demo_reply1 = Some 20 \<and>
   comments (fst (comment_delete demo_db (Token 1) 21)) =
     [(20, demo_comment\<lparr>replies := [22]\<rparr>), (22, demo_reply2)] \<and>
   authenticate demo_db (Token 2) = Inr (2, demo_bob) \<and>
   findById 20 (comments demo_db) = Some demo_comment \<and> user demo_comment = 2 \<and>
   parentComment demo_comment = None \<and>
   comments (fst (comment_delete demo_db (Token 2) 20)) = []"
proof -
  have a1: "authenticate demo_db (Token 1) = Inr (1, demo_ann)"
    by (simp add: authenticate_def findById_def demo_db_def)
  have f1: "findById 21 (comments demo_db) = Some demo_reply1"
    by (simp add: findById_def demo_db_def)
  have o1: "user demo_reply1 = 1" and p1: "parentComment demo_reply1 = Some 20"
    by (simp_all add: demo_reply1_def)
  have a2: "authenticate demo_db (Token 2) = Inr (2, demo_bob)"
    by (simp add: authenticate_def findById_def demo_db_def)
  have f2: "findById 20 (comments demo_db) = Some demo_comment"
    by (simp add: findById_def demo_db_def)
  have o2: "user demo_comment = 2" and p2: "parentComment demo_comment = None"
    by (simp_all add: demo_comment_def)
  have r1: "comments (fst (comment_delete demo_db (Token 1) 21)) =
      filter (\<lambda>(j, d). j \<noteq> 21)
        (map (\<lambda>(j, d). if j = 20
                        then (j, d\<lparr>replies := filter (\<lambda>r. r \<noteq> 21) (replies d)\<rparr>)
                        else (j, d)) (comments demo_db))"
    using comment_delete_cascade [OF a1 f1] o1 p1 by blast
  have r2: "comments (fst (comment_delete demo_db (Token 2) 20)) =
      filter (\<lambda>(j, d). j \<noteq> 20 \<and> parentComment d \<noteq> Some 20) (comments demo_db)"
    using comment_delete_cascade [OF a2 f2] o2 p2 by blast
  have e1: "filter (\<lambda>(j, d). j \<noteq> 21)
        (map (\<lambda>(j, d). if j = 20
                        then (j, d\<lparr>replies := filter (\<lambda>r. r \<noteq> 21) (replies d)\<rparr>)
                        else (j, d)) (comments demo_db)) =
      [(20, demo_comment\<lparr>replies := [22]\<rparr>), (22, demo_reply2)]"
    by (simp add: demo_db_def demo_comment_def)
  have e2: "filter (\<lambda>(j, d). j \<noteq> 20 \<and> parentComment d \<noteq> Some 20) (comments demo_db) = []"
    by (simp add: demo_db_def demo_reply1_def demo_reply2_def)
  show ?thesis
    unfolding r1 r2 e1 e2 using a1 f1 o1 p1 a2 f2 o2 p2 by simp
qed

section \<open>Subscribing and unsubscribing\<close>

text \<open>
  What does hold. For two different users \<open>a\<close> and \<open>b\<close> that exist, with \<open>a\<close> not
  among the subscribers of \<open>b\<close> and \<open>b\<close> not among the channels \<open>a\<close> is subscribed to,
  and any string that is cast to \<open>b\<close>: subscribing \<open>a\<close> to \<open>b\<close> succeeds and puts the
  edge on both users, unsubscribing then succeeds, and after it both users are exactly as
  before the two calls. Subscribing a user to the string \<open>toString()\<close> gives for their
  own identifier answers 400 and leaves the store as it is.
\<close>

lemma subscribe_unsubscribe_roundtrip:
  "(authenticate s jwt = Inr (a, ua) \<and> castObjectId p = Some b \<and>
      findById b (users s) = Some ub \<and> a \<noteq> b \<and>
      a \<notin> set (subscribers ub) \<and> b \<notin> set (subscribedTo ua) \<longrightarrow>
      snd (subscribe s jwt p) = Inr ''Subscribed successfully'' \<and>
      findById a (users (fst (subscribe s jwt p))) =
        Some (ua\<lparr>subscribedTo := subscribedTo ua @ [b]\<rparr>) \<and>
      findById b (users (fst (subscribe s jwt p))) =
        Some (ub\<lparr>subscribers := subscribers ub @ [a]\<rparr>) \<and>
      snd (unsubscribe (fst (subscribe s jwt p)) jwt p) = Inr ''Unsubscribed successfully'' \<and>
      findById a (users (fst (unsubscribe (fst (subscribe s jwt p)) jwt p))) = Some ua \<and>
      findById b (users (fst (unsubscribe (fst (subscribe s jwt p)) jwt p))) = Some ub) \<and>
   (authenticate s jwt = Inr (a, ua) \<longrightarrow>
      subscribe s jwt (toString a) =
        (s, Inl (400, ''Cannot subscribe to your own channel'')))"
proof -
  have self: "subscribe s jwt (toString a) =
      (s, Inl (400, ''Cannot subscribe to your own channel''))"
    if "authenticate s jwt = Inr (a, ua)"
    using that by (simp add: subscribe_def)
  have round: "snd (subscribe s jwt p) = Inr ''Subscribed successfully'' \<and>
      findById a (users (fst (subscribe s jwt p))) =
        Some (ua\<lparr>subscribedTo := subscribedTo ua @ [b]\<rparr>) \<and>
      findById b (users (fst (subscribe s jwt p))) =
        Some (ub\<lparr>subscribers := subscribers ub @ [a]\<rparr>) \<and>
      snd (unsubscribe (fst (subscribe s jwt p)) jwt p) = Inr ''Unsubscribed successfully'' \<and>
      findById a (users (fst (unsubscribe (fst (subscribe s jwt p)) jwt p))) = Some ua \<and>
      findById b (users (fst (unsubscribe (fst (subscribe s jwt p)) jwt p))) = Some ub"
    if auth: "authenticate s jwt = Inr (a, ua)" and cast: "castObjectId p = Some b"
      and ch: "findById b (users s) = Some ub"
      and ne: "a \<noteq> b" and n1: "a \<notin> set (subscribers ub)" and n2: "b \<notin> set (subscribedTo ua)"
  proof -
    from auth have jwt: "jwt = Token a" and fa: "findById a (users s) = Some ua"
      using authenticate_Token by blast+
    have other: "p \<noteq> toString a"
      using cast ne by (auto simp: toString_def)
    let ?s1 = "fst (subscribe s jwt p)"
    have sub: "subscribe s jwt p =
        (s\<lparr>users := updateById a (\<lambda>u. u\<lparr>subscribedTo := subscribedTo u @ [b]\<rparr>)
             (updateById b (\<lambda>u. u\<lparr>subscribers := subscribers u @ [a]\<rparr>) (users s)),
           oplog := oplog s @ [FindByIdAndUpdate Users b, FindByIdAndUpdate Users a]\<rparr>,
         Inr ''Subscribed successfully'')"
      using auth cast ch other n1 by (simp add: subscribe_def Let_def)
    have fa1: "findById a (users ?s1) = Some (ua\<lparr>subscribedTo := subscribedTo ua @ [b]\<rparr>)"
      using fa ne by (simp add: sub findById_updateById)
    have fb1: "findById b (users ?s1) = Some (ub\<lparr>subscribers := subscribers ub @ [a]\<rparr>)"
      using ch ne by (simp add: sub findById_updateById)
    have auth1: "authenticate ?s1 jwt = Inr (a, ua\<lparr>subscribedTo := subscribedTo ua @ [b]\<rparr>)"
      using fa1 by (simp add: jwt authenticate_def)
    have unsub: "unsubscribe ?s1 jwt p =
        (?s1\<lparr>users := updateById a (\<lambda>u. u\<lparr>subscribedTo := pull b (subscribedTo u)\<rparr>)
             (updateById b (\<lambda>u. u\<lparr>subscribers := pull a (subscribers u)\<rparr>) (users ?s1)),
           oplog := oplog ?s1 @ [FindByIdAndUpdate Users b, FindByIdAndUpdate Users a]\<rparr>,
         Inr ''Unsubscribed successfully'')"
      using auth1 cast fb1 by (simp add: unsubscribe_def Let_def)
    have fa2: "findById a (users (fst (unsubscribe ?s1 jwt p))) = Some ua"
      using fa1 ne n2 by (simp add: unsub findById_updateById pull_def filter_neq_id)
    have fb2: "findById b (users (fst (unsubscribe ?s1 jwt p))) = Some ub"
      using fb1 ne n1 by (simp add: unsub findById_updateById pull_def filter_neq_id)
    have r1: "snd (subscribe s jwt p) = Inr ''Subscribed successfully''"
      by (simp only: sub snd_conv)
    have r2: "snd (unsubscribe ?s1 jwt p) = Inr ''Unsubscribed successfully''"
      by (simp only: unsub snd_conv)
    show ?thesis
      using r1 r2 fa1 fb1 fa2 fb2 by blast
  qed
  show ?thesis
    using self round by blast
qed

text \<open>
  C7 fails on the code. The first user of the small store subscribes to a string that is
  cast to their own identifier and is not the string \<open>toString()\<close> gives (their own
  identifier in upper-case hexadecimal digits): the string passes the test for the own
  channel, the store finds the user, and the request succeeds and stores the user among
  their own subscribers and among the channels they are subscribed to. With the string
  \<open>toString()\<close> gives, the same request answers 400.
\<close>

theorem subscribe_own_channel_respelled:
  "authenticate demo_db (Token 1) = Inr (1, demo_ann) \<and>
   castObjectId (OtherSpelling 1) = Some 1 \<and>
   subscribe demo_db (Token 1) (OtherSpelling 1) =
     (demo_db\<lparr>users := [(1, demo_ann\<lparr>subscribers := [1], subscribedTo := [1]\<rparr>),
                         (2, demo_bob)],
              oplog := [FindByIdAndUpdate Users 1, FindByIdAndUpdate Users 1]\<rparr>,
      Inr ''Subscribed successfully'') \<and>
   subscribe demo_db (Token 1) (toString 1) =
     (demo_db, Inl (400, ''Cannot subscribe to your own channel''))"
  by (simp add: subscribe_def authenticate_def findById_def updateById_def toString_def
      demo_db_def demo_ann_def Let_def)

section \<open>Search\<close>

lemma set_sort_desc: "set (sort_desc k xs) = set xs"
  by (simp add: sort_desc_def)

lemma length_sort_desc: "length (sort_desc k xs) = length xs"
  by (simp add: sort_desc_def)

lemma sorted_sort_desc: "sorted_wrt (\<lambda>x y. k y \<le> k x) (sort_desc k xs)"
proof -
  have "sorted (map k (sort_key k (rev xs)))"
    by (rule sorted_sort_key)
  then have "sorted_wrt (\<lambda>x y. k x \<le> k y) (sort_key k (rev xs))"
    by (simp add: sorted_wrt_map)
  then show ?thesis
    by (simp add: sort_desc_def sorted_wrt_rev)
qed

text \<open>
  C8. Search answers 400 (invalid input) when the query string is absent or empty. For
  a query string that is not empty it answers with the first 50 (or all, when there are
  fewer) of the matching videos put in order: a video with a higher text score comes
  before one with a lower score, and of two videos with the same score the one with more
  views comes first or they have the same number of views.
\<close>

theorem video_search_contract:
  "(\<not> truthy q \<longrightarrow>
      video_search text_match textScore s q = Inl (400, ''Search query is required'')) \<and>
   (\<forall>t. q = Some t \<and> t \<noteq> [] \<longrightarrow>
      (\<exists>r rest. video_search text_match textScore s q = Inr r \<and>
         length r \<le> 50 \<and>
         length r = min 50 (length (filter (\<lambda>(i, v). text_match t v) (videos s))) \<and>
         set (r @ rest) = set (filter (\<lambda>(i, v). text_match t v) (videos s)) \<and>
         length (r @ rest) = length (filter (\<lambda>(i, v). text_match t v) (videos s)) \<and>
         sorted_wrt (\<lambda>(i, x) (j, y). textScore t y < textScore t x \<or>
                       textScore t x = textScore t y \<and> views y \<le> views x) (r @ rest)))"
proof -
  have bad: "video_search text_match textScore s q = Inl (400, ''Search query is required'')"
    if "\<not> truthy q"
    using that by (auto simp: video_search_def truthy_def split: option.splits)
  have good: "\<exists>r rest. video_search text_match textScore s q = Inr r \<and>
         length r \<le> 50 \<and>
         length r = min 50 (length (filter (\<lambda>(i, v). text_match t v) (videos s))) \<and>
         set (r @ rest) = set (filter (\<lambda>(i, v). text_match t v) (videos s)) \<and>
         length (r @ rest) = length (filter (\<lambda>(i, v). text_match t v) (videos s)) \<and>
         sorted_wrt (\<lambda>(i, x) (j, y). textScore t y < textScore t x \<or>
                       textScore t x = textScore t y \<and> views y \<le> views x) (r @ rest)"
    if q: "q = Some t" and t: "t \<noteq> []" for t
  proof -
    let ?ms = "filter (\<lambda>(i, v). text_match t v) (videos s)"
    let ?k = "\<lambda>(i, v). (textScore t v, views v)"
    let ?all = "sort_desc ?k ?ms"
    have res: "video_search text_match textScore s q = Inr (take 50 ?all)"
      using q t by (simp add: video_search_def)
    have "sorted_wrt (\<lambda>x y. ?k y \<le> ?k x) ?all"
      by (rule sorted_sort_desc)
    moreover have "(?k y \<le> ?k x) =
        (case x of (i, x') \<Rightarrow> case y of (j, y') \<Rightarrow>
           textScore t y' < textScore t x' \<or>
           textScore t x' = textScore t y' \<and> views y' \<le> views x')"
      for x y :: "oid \<times> video_doc"
      by (cases x; cases y) auto
    ultimately have srt: "sorted_wrt (\<lambda>(i, x) (j, y). textScore t y < textScore t x \<or>
                       textScore t x = textScore t y \<and> views y \<le> views x) ?all"
      by (simp add: case_prod_unfold)
    have app: "take 50 ?all @ drop 50 ?all = ?all"
      by simp
    show ?thesis
      apply (rule exI [of _ "take 50 ?all"])
      apply (rule exI [of _ "drop 50 ?all"])
      unfolding app
      using res srt by (simp add: set_sort_desc length_sort_desc)
  qed
  show ?thesis
    using bad good by blast
qed

text \<open>
  In the store with three videos, let a video match a string when the string is its
  category and let the score be the creation time: both Music videos match, the later
  one first.
\<close>

theorem video_search_contract_witness:
  "\<not> truthy None \<and> \<not> truthy (Some []) \<and>
   video_search (\<lambda>t v. category v = t) (\<lambda>t v. createdAt v) demo_catalog None =
     Inl (400, ''Search query is required'') \<and>
   video_search (\<lambda>t v. category v = t) (\<lambda>t v. createdAt v) demo_catalog (Some []) =
     Inl (400, ''Search query is required'') \<and>
   video_search (\<lambda>t v. category v = t) (\<lambda>t v. createdAt v) demo_catalog (Some ''Music'') =
     Inr [(11, demo_live), (10, demo_video)]"
proof -
  have n: "\<not> truthy None" and e: "\<not> truthy (Some [])"
    by (simp_all add: truthy_def)
  have r: "video_search (\<lambda>t v. category v = t) (\<lambda>t v. createdAt v) demo_catalog
             (Some ''Music'') = Inr [(11, demo_live), (10, demo_video)]"
    by (simp add: video_search_def sort_desc_def demo_catalog_def demo_db_def demo_video_def
        demo_live_def demo_final_def)
  show ?thesis
    using video_search_contract [of None "\<lambda>t v. category v = t" "\<lambda>t v. createdAt v" demo_catalog]
      video_search_contract [of "Some []" "\<lambda>t v. category v = t" "\<lambda>t v. createdAt v" demo_catalog]
      n e r
    by blast
qed

section \<open>The category of a new video\<close>

text \<open>
  C9, as the code has it. Every video that an upload stores has a category of the
  enumeration: Entertainment when the request gives no category or an empty one, and
  the category of the request otherwise. An upload whose category is not empty and not
  in the enumeration stores nothing and answers with an error; when the request is
  authenticated and has both files, the error is the 500 of a failed save.
\<close>

theorem video_create_category:
  "(\<forall>s' n' v. video_create s jwt up t d c g p n now = (s', Inr (n', v)) \<longrightarrow>
      videos s' = videos s @ [(n', v)] \<and>
      category v \<in> set categories \<and>
      (\<not> truthy c \<longrightarrow> category v = ''Entertainment'') \<and>
      (truthy c \<longrightarrow> Some (category v) = c)) \<and>
   (\<forall>x. c = Some x \<and> x \<noteq> [] \<and> x \<notin> set categories \<longrightarrow>
      fst (video_create s jwt up t d c g p n now) = s \<and>
      (\<exists>e. snd (video_create s jwt up t d c g p n now) = Inl e) \<and>
      (\<forall>a u vp tp. authenticate s jwt = Inr (a, u) \<and> up = Inr (Some vp, Some tp) \<longrightarrow>
         snd (video_create s jwt up t d c g p n now) =
           Inl (500, ''Server error during video upload'')))"
  by (auto simp: video_create_def Let_def validate_video_def or_else_def truthy_def
      split: sum.splits option.splits if_splits prod.splits)

text \<open>The first user of the small store uploads a video without a category, and with Music.\<close>

theorem video_create_category_witness:
  "\<not> truthy None \<and>
   video_create demo_db (Token 1) (Inr (Some ''v/d.mp4'', Some ''t/d.png''))
       (Some ''Clip'') None None None None 11 12 =
     (demo_db\<lparr>videos := videos demo_db @ [(11, demo_clip)], oplog := [Save Videos 11]\<rparr>,
      Inr (11, demo_clip)) \<and>
   category demo_clip = ''Entertainment'' \<and> category demo_clip \<in> set categories \<and>
   truthy (Some ''Music'') \<and>
   video_create demo_db (Token 1) (Inr (Some ''v/d.mp4'', Some ''t/d.png''))
       (Some ''Clip'') None (Some ''Music'') None None 11 12 =
     (demo_db\<lparr>videos := videos demo_db @ [(11, demo_clip\<lparr>category := ''Music''\<rparr>)],
              oplog := [Save Videos 11]\<rparr>,
      Inr (11, demo_clip\<lparr>category := ''Music''\<rparr>))"
proof -
  have n: "\<not> truthy None" and m: "truthy (Some ''Music'')"
    by (simp_all add: truthy_def)
  have e: "video_create demo_db (Token 1) (Inr (Some ''v/d.mp4'', Some ''t/d.png''))
       (Some ''Clip'') None None None None 11 12 =
     (demo_db\<lparr>videos := videos demo_db @ [(11, demo_clip)], oplog := [Save Videos 11]\<rparr>,
      Inr (11, demo_clip))"
    by (simp add: video_create_def authenticate_def findById_def validate_video_def
        categories_def id_free_def or_else_def trim_def is_space_def demo_db_def demo_clip_def
        Let_def)
  have f: "video_create demo_db (Token 1) (Inr (Some ''v/d.mp4'', Some ''t/d.png''))
       (Some ''Clip'') None (Some ''Music'') None None 11 12 =
     (demo_db\<lparr>videos := videos demo_db @ [(11, demo_clip\<lparr>category := ''Music''\<rparr>)],
              oplog := [Save Videos 11]\<rparr>,
      Inr (11, demo_clip\<lparr>category := ''Music''\<rparr>))"
    by (simp add: video_create_def authenticate_def findById_def validate_video_def
        categories_def id_free_def or_else_def trim_def is_space_def demo_db_def demo_clip_def
        Let_def)
  from video_create_category
    [of demo_db "Token 1" "Inr (Some ''v/d.mp4'', Some ''t/d.png'')" "Some ''Clip''" None None
      None None 11 12] e n
  have c: "category demo_clip = ''Entertainment'' \<and> category demo_clip \<in> set categories"
    by blast
  show ?thesis
    using n m e f c by blast
qed

text \<open>
  Cooking is not in the enumeration: the upload does not store the video with the
  category Entertainment; it stores nothing and answers 500.
\<close>

theorem video_create_category_counterexample:
  "''Cooking'' \<notin> set categories \<and>
   video_create demo_db (Token 1) (Inr (Some ''v/d.mp4'', Some ''t/d.png''))
       (Some ''Clip'') None (Some ''Cooking'') None None 11 12 =
     (demo_db, Inl (500, ''Server error during video upload''))"
  by (simp add: video_create_def authenticate_def findById_def validate_video_def
      categories_def id_free_def or_else_def trim_def is_space_def demo_db_def Let_def)

section \<open>Recommended videos\<close>

lemma find_videos_category:
  "find_videos [(F_id, Q_ne i), (F_category, Q_eq c)] s =
   filter (\<lambda>(j, v). j \<noteq> i \<and> category v = c) (videos s)"
  by (auto simp: find_videos_def intro!: filter_cong)

text \<open>
  The filter of the second query writes the key \<open>_id\<close> twice; only \<open>$nin\<close> is left of
  it, and the video asked about is not excluded.
\<close>

lemma find_videos_backfill:
  "find_videos [(F_id, Q_ne i), (F_id, Q_nin js)] s =
   filter (\<lambda>(j, v). j \<notin> set js) (videos s)"
  by (auto simp: find_videos_def intro!: filter_cong)

text \<open>
  What does hold of the two steps: the videos of the same category do not include the
  video asked about and are at most 15; the second step runs only when they are fewer
  than 10, adds at most 15 minus their number, and adds none of them again.
\<close>

lemma video_recommended_steps:
  assumes "findById i (videos s) = Some cur"
  shows "\<exists>cat pop. video_recommended s i = Inr (cat @ pop) \<and>
     cat = take 15 (sort_desc (\<lambda>(j, v). (views v, createdAt v))
             (filter (\<lambda>(j, v). j \<noteq> i \<and> category v = category cur) (videos s))) \<and>
     pop = (if length cat < 10
            then take (15 - length cat) (sort_desc (\<lambda>(j, v). views v)
                   (filter (\<lambda>(j, v). j \<notin> set (map fst cat)) (videos s)))
            else []) \<and>
     i \<notin> fst ` set cat \<and> length cat \<le> 15 \<and> length pop \<le> 15 - length cat \<and>
     fst ` set pop \<inter> fst ` set cat = {}"
proof -
  let ?cat = "take 15 (sort_desc (\<lambda>(j, v). (views v, createdAt v))
             (filter (\<lambda>(j, v). j \<noteq> i \<and> category v = category cur) (videos s)))"
  let ?pop = "(if length ?cat < 10
            then take (15 - length ?cat) (sort_desc (\<lambda>(j, v). views v)
                   (filter (\<lambda>(j, v). j \<notin> set (map fst ?cat)) (videos s)))
            else [])"
  have r: "video_recommended s i = Inr (?cat @ ?pop)"
    using assms
    by (simp add: video_recommended_def Let_def find_videos_category find_videos_backfill)
  have c: "i \<notin> fst ` set ?cat"
    by (auto dest!: in_set_takeD simp: set_sort_desc)
  have g: "fst ` set (take n (sort_desc k (filter (\<lambda>(j, v). j \<notin> set (map fst c)) xs))) \<inter>
        fst ` set c = {}"
    for n c and k :: "oid \<times> video_doc \<Rightarrow> nat" and xs :: "(oid \<times> video_doc) list"
    by (force dest!: in_set_takeD simp: set_sort_desc)
  have p: "fst ` set ?pop \<inter> fst ` set ?cat = {}"
    by (cases "length ?cat < 10")
      (simp_all only: if_True if_False g list.set image_empty Int_empty_left)
  have l: "length ?pop \<le> 15 - length ?cat"
    by simp
  show ?thesis
    using r c p l by (intro exI [of _ ?cat] exI [of _ ?pop]) simp
qed

text \<open>
  C4 fails on the code. Video 12 is the only video of its category in the store with
  three videos: the first step finds nothing, the second step takes the most viewed
  videos of the whole collection, and the answer contains video 12 itself.
\<close>

theorem video_recommended_returns_source:
  "findById 12 (videos demo_catalog) = Some demo_final \<and>
   video_recommended demo_catalog 12 =
     Inr [(11, demo_live), (12, demo_final), (10, demo_video)]"
  by (simp add: video_recommended_def findById_def find_videos_def sort_desc_def
      demo_catalog_def demo_db_def demo_video_def demo_live_def demo_final_def Let_def)

section \<open>The subscription collection\<close>

lemma step_subscriptions: "subscriptions (step r s) = subscriptions s"
  by (cases r)
    (simp_all add: video_view_def video_create_def video_update_def video_delete_def
      video_like_def video_unlike_def video_dislike_def video_undislike_def
      comment_create_def comment_like_def comment_unlike_def comment_dislike_def
      comment_undislike_def comment_update_def comment_delete_def profile_update_def
      profile_picture_def subscribe_def unsubscribe_def save_video_def save_comment_def Let_def
      split: sum.splits option.splits prod.splits)

lemma step_oplog:
  "list_all (\<lambda>w. op_coll w \<noteq> Subscriptions) (oplog s) \<Longrightarrow>
   list_all (\<lambda>w. op_coll w \<noteq> Subscriptions) (oplog (step r s))"
  by (cases r)
    (simp_all add: video_view_def video_create_def video_update_def video_delete_def
      video_like_def video_unlike_def video_dislike_def video_undislike_def
      comment_create_def comment_like_def comment_unlike_def comment_dislike_def
      comment_undislike_def comment_update_def comment_delete_def profile_update_def
      profile_picture_def subscribe_def unsubscribe_def save_video_def save_comment_def Let_def
      split: sum.splits option.splits prod.splits)

lemma run_subscriptions: "subscriptions (run rs s) = subscriptions s"
  by (induction rs arbitrary: s) (simp_all add: step_subscriptions)

lemma run_oplog:
  "list_all (\<lambda>w. op_coll w \<noteq> Subscriptions) (oplog s) \<Longrightarrow>
   list_all (\<lambda>w. op_coll w \<noteq> Subscriptions) (oplog (run rs s))"
  by (induction rs arbitrary: s) (simp_all add: step_oplog)

lemma subscribe_users:
  "list_all2 (\<lambda>(j, u) (j', u'). j' = j \<and>
       u'\<lparr>subscribers := subscribers u, subscribedTo := subscribedTo u\<rparr> = u \<and>
       (u' \<noteq> u \<longrightarrow> castObjectId ch = Some j \<or> jwt = Token j))
     (users s) (users (fst (subscribe s jwt ch)))"
  by (auto simp: subscribe_def Let_def updateById_def list_all2_map2 list_all2_same
      dest: authenticate_Token split: sum.splits option.splits prod.splits)

lemma unsubscribe_users:
  "list_all2 (\<lambda>(j, u) (j', u'). j' = j \<and>
       u'\<lparr>subscribers := subscribers u, subscribedTo := subscribedTo u\<rparr> = u \<and>
       (u' \<noteq> u \<longrightarrow> castObjectId ch = Some j \<or> jwt = Token j))
     (users s) (users (fst (unsubscribe s jwt ch)))"
  by (auto simp: unsubscribe_def Let_def updateById_def list_all2_map2 list_all2_same
      dest: authenticate_Token split: sum.splits option.splits prod.splits)

text \<open>
  C10. No sequence of requests changes the subscription collection, and none issues a
  write to it: a log without such a write stays without one. Subscribe and unsubscribe
  leave videos and comments alone; of the users they keep every identifier in its place
  and every field other than \<open>subscribers\<close> and \<open>subscribedTo\<close>, and a user that is
  changed at all is the channel (the user the route string is cast to) or the subscriber.
\<close>

theorem subscription_collection_untouched:
  "subscriptions (run rs s) = subscriptions s \<and>
   (list_all (\<lambda>w. op_coll w \<noteq> Subscriptions) (oplog s) \<longrightarrow>
      list_all (\<lambda>w. op_coll w \<noteq> Subscriptions) (oplog (run rs s))) \<and>
   (r = Subscribe jwt ch \<or> r = Unsubscribe jwt ch \<longrightarrow>
      videos (step r s) = videos s \<and> comments (step r s) = comments s \<and>
      list_all2 (\<lambda>(j, u) (j', u'). j' = j \<and>
          u'\<lparr>subscribers := subscribers u, subscribedTo := subscribedTo u\<rparr> = u \<and>
          (u' \<noteq> u \<longrightarrow> castObjectId ch = Some j \<or> jwt = Token j))
        (users s) (users (step r s)))"
proof -
  have frame: "videos (step r s) = videos s \<and> comments (step r s) = comments s \<and>
      list_all2 (\<lambda>(j, u) (j', u'). j' = j \<and>
          u'\<lparr>subscribers := subscribers u, subscribedTo := subscribedTo u\<rparr> = u \<and>
          (u' \<noteq> u \<longrightarrow> castObjectId ch = Some j \<or> jwt = Token j))
        (users s) (users (step r s))"
    if "r = Subscribe jwt ch \<or> r = Unsubscribe jwt ch"
    using that subscribe_users [of ch jwt s] unsubscribe_users [of ch jwt s]
    by (auto simp: subscribe_videos unsubscribe_videos subscribe_comments unsubscribe_comments)
  show ?thesis
    using frame run_subscriptions [of rs s] run_oplog [of s rs] by blast
qed

theorem subscription_collection_untouched_witness:
  "list_all (\<lambda>w. op_coll w \<noteq> Subscriptions) (oplog demo_db) \<and>
   subscriptions (run [Subscribe (Token 1) (ToString 2), VideoLike (Token 2) 10,
                       Unsubscribe (Token 1) (ToString 2), CommentDelete (Token 2) 20,
                       VideoDelete (Token 1) 10] demo_db) = [] \<and>
   list_all (\<lambda>w. op_coll w \<noteq> Subscriptions)
     (oplog (run [Subscribe (Token 1) (ToString 2), VideoLike (Token 2) 10,
                  Unsubscribe (Token 1) (ToString 2), CommentDelete (Token 2) 20,
                  VideoDelete (Token 1) 10] demo_db)) \<and>
   videos (step (Subscribe (Token 1) (ToString 2)) demo_db) = videos demo_db \<and>
   comments (step (Subscribe (Token 1) (ToString 2)) demo_db) = comments demo_db"
proof -
  have l: "list_all (\<lambda>w. op_coll w \<noteq> Subscriptions) (oplog demo_db)"
    and e: "subscriptions demo_db = []"
    by (simp_all add: demo_db_def)
  show ?thesis
    using subscription_collection_untouched
      [of "[Subscribe (Token 1) (ToString 2), VideoLike (Token 2) 10,
            Unsubscribe (Token 1) (ToString 2), CommentDelete (Token 2) 20,
            VideoDelete (Token 1) 10]" demo_db
          "Subscribe (Token 1) (ToString 2)" "Token 1" "ToString 2"] l e
    by simp
qed

end
